theory Spec2Isabelle
  imports Complex_Main "HOL-Library.Sublist" "HOL-Library.Multiset"
begin

section \<open>The stitching job registry and worker of stitch\_videos.py\<close>

text \<open>
  The Python module keeps a process-wide registry of running stitch jobs
  (\<^verbatim>\<open>StitchManager.active_stitches\<close>), validates a submission, snapshots and orders
  the video files of a folder, and starts a background thread (\<^verbatim>\<open>process_videos\<close>)
  that writes a list file, runs FFmpeg, deletes the sources, calls the callback and
  unregisters the job.

  Everything the code touches outside its own variables is made explicit in a
  \<open>world\<close>: the registry, the configuration, the file system as seen through the
  \<^verbatim>\<open>os\<close> calls, the clock, and the trace of calls made to the outside
  (\<^verbatim>\<open>obs.script_log\<close>, \<^verbatim>\<open>os.remove\<close>, \<^verbatim>\<open>subprocess.run\<close>, the callback).
  A Python exception is the value \<open>Raise\<close> carrying the exception's text.
\<close>

subsection \<open>Values\<close>

datatype 'a result = Return 'a | Raise string

datatype level = LOG_INFO | LOG_WARNING | LOG_ERROR

text \<open>What happens in \<^verbatim>\<open>subprocess.run(cmd, capture_output=True, text=True, check=True)\<close>:
  the process exited with a return code and its captured standard error was read as
  text (\<open>Exited\<close>); the process exited with a return code but its captured output
  cannot be decoded as text, so that \<^verbatim>\<open>subprocess.run\<close> raises \<^verbatim>\<open>UnicodeDecodeError\<close>
  before it looks at the return code (\<open>Undecodable\<close>, with the text of the exception);
  or the process could not be launched, an \<^verbatim>\<open>OSError\<close> (\<open>NotLaunched\<close>).\<close>

datatype completed = Exited int string | Undecodable int string | NotLaunched string

text \<open>The calls the code makes to the outside, in the order it makes them. \<open>Write p txt\<close>
  says that the \<^verbatim>\<open>with open(p, "w")\<close> block was left normally and the file then held
  \<open>txt\<close>. For \<^verbatim>\<open>os.remove\<close> the flag says whether the call returned normally.\<close>

datatype event =
    Log level string
  | Write string string
  | Remove string bool
  | Ran "string list" completed
  | Called string

text \<open>What \<^verbatim>\<open>os.stat\<close> tells of the modification time: the time in nanoseconds as the
  file system keeps it, and the float of seconds that \<^verbatim>\<open>os.path.getmtime\<close> returns. The
  float has 53 bits, so times that differ by less than its resolution (about 0.24
  microseconds for times of today) have the same float.\<close>

record stat_result =
  st_mtime_ns :: int
  st_mtime :: real

text \<open>A file carries its modification time and its text; a directory its modification
  time and the names \<^verbatim>\<open>os.listdir\<close> returns, in that order. A name in a listing with no
  node at the joined path is an entry that cannot be read (a dangling link, or a file
  another thread has just removed).\<close>

datatype node = File stat_result string | Dir stat_result "string list"

text \<open>The value stored under a compilation name in \<^verbatim>\<open>active_stitches\<close>.\<close>

record job =
  job_start_time :: real
  job_folder_path :: string
  job_output_path :: string
  job_status :: string

text \<open>The entry \<^verbatim>\<open>"FFMpeg"\<close> of \<^verbatim>\<open>config_data\<close>, with its optional keys.\<close>

record ffmpeg_config =
  Path :: "string option"
  Args :: "string list option"

record world =
  active_stitches :: "string \<rightharpoonup> job"
  config_data :: "ffmpeg_config option"
  files :: "string \<rightharpoonup> node"
  unwritable :: "string \<rightharpoonup> string"
  unencodable :: "string set"
  undeletable :: "string set"
  clock :: real
  stamp :: stat_result
  events :: "event list"

text \<open>\<open>unwritable\<close> gives, for a path the operating system refuses to open for writing
  (permissions, missing parent directory), the text of the exception; \<open>unencodable\<close>
  holds the texts that cannot be encoded for a file (a name read from a directory may
  hold bytes outside the encoding); \<open>undeletable\<close> the paths the operating system
  refuses to remove; \<open>clock\<close> is what \<^verbatim>\<open>time.time()\<close> returns and \<open>stamp\<close> the
  modification time a file written now gets.\<close>

text \<open>A callback returns \<open>None\<close> when it returns normally and the text of the exception
  when it raises.\<close>

type_synonym callback = "string \<Rightarrow> string option"

text \<open>The variables the closure \<^verbatim>\<open>process_videos\<close> captures when the thread is created:
  compilation name, folder path, output path, ordered video files, cleanup flag, callback.\<close>

datatype thread = Thread string string string "string list" bool "callback option"

subsection \<open>Strings and paths\<close>

definition startswith :: "string \<Rightarrow> string \<Rightarrow> bool" where
  "startswith s p = prefix p s"

definition endswith :: "string \<Rightarrow> string \<Rightarrow> bool" where
  "endswith s x = suffix x s"

text \<open>A text between single quotes, as the f-strings of the source write it.\<close>

definition quoted :: "string \<Rightarrow> string" where
  "quoted s = CHR 0x27 # s @ [CHR 0x27]"

text \<open>\<^verbatim>\<open>os.path.join\<close> of two components (POSIX): an absolute second component replaces
  the first; otherwise one separator stands between them.\<close>

definition os_path_join :: "string \<Rightarrow> string \<Rightarrow> string" where
  "os_path_join a b =
     (if startswith b ''/'' then b
      else if a = [] \<or> endswith a ''/'' then a @ b
      else a @ ''/'' @ b)"

definition os_path_isabs :: "string \<Rightarrow> bool" where
  "os_path_isabs p = startswith p ''/''"

text \<open>\<^verbatim>\<open>os.path.basename\<close>: what follows the last separator.\<close>

definition os_path_basename :: "string \<Rightarrow> string" where
  "os_path_basename p = rev (takeWhile (\<lambda>c. c \<noteq> CHR ''/'') (rev p))"

subsection \<open>The \<^verbatim>\<open>os\<close> calls and the log\<close>

definition script_log :: "level \<Rightarrow> string \<Rightarrow> world \<Rightarrow> world" where
  "script_log lv msg w = w\<lparr>events := events w @ [Log lv msg]\<rparr>"

definition os_path_exists :: "world \<Rightarrow> string \<Rightarrow> bool" where
  "os_path_exists w p = (files w p \<noteq> None)"

definition os_path_isdir :: "world \<Rightarrow> string \<Rightarrow> bool" where
  "os_path_isdir w p = (case files w p of Some (Dir t ns) \<Rightarrow> True | _ \<Rightarrow> False)"

definition os_listdir :: "world \<Rightarrow> string \<Rightarrow> string list result" where
  "os_listdir w p =
     (case files w p of
        Some (Dir t ns) \<Rightarrow> Return ns
      | Some (File t c) \<Rightarrow> Raise (''[Errno 20] Not a directory: '' @ quoted p)
      | None \<Rightarrow> Raise (''[Errno 2] No such file or directory: '' @ quoted p))"

definition os_path_getmtime :: "world \<Rightarrow> string \<Rightarrow> real result" where
  "os_path_getmtime w p =
     (case files w p of
        Some (File t c) \<Rightarrow> Return (st_mtime t)
      | Some (Dir t ns) \<Rightarrow> Return (st_mtime t)
      | None \<Rightarrow> Raise (''[Errno 2] No such file or directory: '' @ quoted p))"


text \<open>Removing the node at \<open>p\<close> also takes its name out of every listing that names it.\<close>

definition unlink :: "string \<Rightarrow> (string \<rightharpoonup> node) \<Rightarrow> (string \<rightharpoonup> node)" where
  "unlink p fs =
     (\<lambda>q. if q = p then None
          else (case fs q of
                  Some (Dir t ns) \<Rightarrow> Some (Dir t (filter (\<lambda>n. os_path_join q n \<noteq> p) ns))
                | x \<Rightarrow> x))"

text \<open>\<^verbatim>\<open>os.remove(p)\<close>: raises when there is no entry, when the entry is a directory, or
  when the operating system refuses.\<close>

definition os_remove :: "string \<Rightarrow> world \<Rightarrow> world result" where
  "os_remove p w =
     (case files w p of
        None \<Rightarrow> Raise (''[Errno 2] No such file or directory: '' @ quoted p)
      | Some (Dir t ns) \<Rightarrow> Raise (''[Errno 21] Is a directory: '' @ quoted p)
      | Some (File t c) \<Rightarrow>
          if p \<in> undeletable w then Raise (''[Errno 13] Permission denied: '' @ quoted p)
          else Return (w\<lparr>files := unlink p (files w)\<rparr>))"

text \<open>A new file is entered in the listing of every directory it is a direct entry of.\<close>

definition link :: "string \<Rightarrow> (string \<rightharpoonup> node) \<Rightarrow> (string \<rightharpoonup> node)" where
  "link p fs =
     (\<lambda>q. case fs q of
            Some (Dir t ns) \<Rightarrow>
              (let pre = os_path_join q [];
                   n = drop (length pre) p
               in if startswith p pre \<and> n \<noteq> [] \<and> CHR ''/'' \<notin> set n \<and> n \<notin> set ns
                  then Some (Dir t (ns @ [n])) else Some (Dir t ns))
          | x \<Rightarrow> x)"

text \<open>\<^verbatim>\<open>open(p, "w")\<close>: raises when \<open>p\<close> is a directory or the operating system
  refuses; otherwise the file is there and empty.\<close>

definition open_w :: "string \<Rightarrow> world \<Rightarrow> world result" where
  "open_w p w =
     (case files w p of
        Some (Dir t ns) \<Rightarrow> Raise (''[Errno 21] Is a directory: '' @ quoted p)
      | Some (File t c) \<Rightarrow>
          (case unwritable w p of
             Some e \<Rightarrow> Raise e
           | None \<Rightarrow> Return (w\<lparr>files := (files w)(p \<mapsto> File (stamp w) [])\<rparr>))
      | None \<Rightarrow>
          (case unwritable w p of
             Some e \<Rightarrow> Raise e
           | None \<Rightarrow> Return (w\<lparr>files := (link p (files w))(p \<mapsto> File (stamp w) [])\<rparr>)))"

text \<open>\<^verbatim>\<open>f.write(s)\<close> on the file opened at \<open>p\<close>: raises \<^verbatim>\<open>UnicodeEncodeError\<close> when the
  text cannot be encoded; otherwise the text is added to the file. What was written
  before stays in the file when a later write raises.\<close>

definition f_write :: "string \<Rightarrow> string \<Rightarrow> world \<Rightarrow> world result" where
  "f_write p s w =
     (if s \<in> unencodable w
      then Raise ''codec cannot encode the text: surrogates not allowed''
      else Return (w\<lparr>files := (files w)(p \<mapsto>
                      (case files w p of
                         Some (File t c) \<Rightarrow> File t (c @ s)
                       | _ \<Rightarrow> File (stamp w) s))\<rparr>))"

text \<open>The text of the file at \<open>p\<close>.\<close>

definition read_text :: "world \<Rightarrow> string \<Rightarrow> string" where
  "read_text w p = (case files w p of Some (File t c) \<Rightarrow> c | _ \<Rightarrow> [])"

subsection \<open>StitchManager\<close>

definition is_stitching :: "world \<Rightarrow> string \<Rightarrow> bool" where
  "is_stitching w compilation_name = (compilation_name \<in> dom (active_stitches w))"

text \<open>\<^verbatim>\<open>_register_stitch\<close>: the whole body runs under \<^verbatim>\<open>active_lock\<close>, so it is one step.\<close>

definition register_stitch :: "string \<Rightarrow> string \<Rightarrow> string \<Rightarrow> world \<Rightarrow> bool \<times> world" where
  "register_stitch compilation_name folder_path output_path w =
     (if compilation_name \<in> dom (active_stitches w) then (False, w)
      else (True,
            w\<lparr>active_stitches := (active_stitches w)(compilation_name \<mapsto>
                 \<lparr>job_start_time = clock w,
                  job_folder_path = folder_path,
                  job_output_path = output_path,
                  job_status = ''started''\<rparr>)\<rparr>))"

text \<open>\<^verbatim>\<open>_unregister_stitch\<close>, also one step under the lock.\<close>

definition unregister_stitch :: "string \<Rightarrow> world \<Rightarrow> world" where
  "unregister_stitch compilation_name w =
     (if compilation_name \<in> dom (active_stitches w)
      then w\<lparr>active_stitches := (active_stitches w)(compilation_name := None)\<rparr>
      else w)"

subsection \<open>Ordering the snapshot\<close>

text \<open>\<^verbatim>\<open>sorted(xs, key=k, reverse=False)\<close> computes the key of every element first, left to
  right (the first exception leaves the call), then sorts the pairs stably by key.\<close>

fun keys_of :: "'k result list \<Rightarrow> 'k list result" where
  "keys_of [] = Return []"
| "keys_of (Raise e # rs) = Raise e"
| "keys_of (Return k # rs) =
     (case keys_of rs of Raise e \<Rightarrow> Raise e | Return ks \<Rightarrow> Return (k # ks))"

definition sorted_key :: "(string \<Rightarrow> ('k::linorder) result) \<Rightarrow> string list \<Rightarrow> string list result" where
  "sorted_key key xs =
     (case keys_of (map key xs) of
        Raise e \<Rightarrow> Raise e
      | Return ks \<Rightarrow> Return (map snd (sort_key fst (zip ks xs))))"

subsection \<open>The worker \<^verbatim>\<open>process_videos\<close>\<close>

definition list_file_path :: "string \<Rightarrow> string \<Rightarrow> string" where
  "list_file_path folder_path compilation_name =
     os_path_join folder_path (''file_list_'' @ compilation_name @ ''.txt'')"

text \<open>One \<^verbatim>\<open>f.write\<close> of the loop: \<^verbatim>\<open>f"file '{os.path.join(folder_path, video)}'\n"\<close>.\<close>

definition list_line :: "string \<Rightarrow> string" where
  "list_line p = ''file '' @ quoted p @ [CHR 0x0A]"

definition list_file_text :: "string \<Rightarrow> string list \<Rightarrow> string" where
  "list_file_text folder_path video_files =
     concat (map (\<lambda>video. list_line (os_path_join folder_path video)) video_files)"

text \<open>The loop of the \<^verbatim>\<open>with\<close> block: one \<^verbatim>\<open>f.write\<close> for each video, in order; the first
  that raises leaves the block, with the text of the exception.\<close>

fun write_lines :: "string \<Rightarrow> string \<Rightarrow> string list \<Rightarrow> world \<Rightarrow> string option \<times> world" where
  "write_lines p folder_path [] w = (None, w)"
| "write_lines p folder_path (video # rest) w =
     (case f_write p (list_line (os_path_join folder_path video)) w of
        Raise e \<Rightarrow> (Some e, w)
      | Return w' \<Rightarrow> write_lines p folder_path rest w')"

text \<open>The \<^verbatim>\<open>with open(list_file_path, "w") as f\<close> block: \<open>None\<close> when it is left
  normally, the text of the exception otherwise.\<close>

definition write_list_file :: "string \<Rightarrow> string \<Rightarrow> string list \<Rightarrow> world \<Rightarrow> string option \<times> world" where
  "write_list_file p folder_path video_files w =
     (case open_w p w of
        Raise e \<Rightarrow> (Some e, w)
      | Return w0 \<Rightarrow>
          (case write_lines p folder_path video_files w0 of
             (Some e, w1) \<Rightarrow> (Some e, w1)
           | (None, w1) \<Rightarrow> (None, w1\<lparr>events := events w1 @ [Write p (read_text w1 p)]\<rparr>)))"

text \<open>The deletion loop: each \<^verbatim>\<open>os.remove\<close> sits in its own \<^verbatim>\<open>try\<close>.\<close>

fun cleanup_sources :: "string \<Rightarrow> string list \<Rightarrow> world \<Rightarrow> world" where
  "cleanup_sources folder_path [] w = w"
| "cleanup_sources folder_path (video # rest) w =
     (let vid_path = os_path_join folder_path video in
      case os_remove vid_path w of
        Return w' \<Rightarrow>
          cleanup_sources folder_path rest
            (script_log LOG_INFO (''Deleted source video: '' @ video)
               (w'\<lparr>events := events w' @ [Remove vid_path True]\<rparr>))
      | Raise e \<Rightarrow>
          cleanup_sources folder_path rest
            (script_log LOG_ERROR (''Failed to delete video '' @ video @ '': '' @ e)
               (w\<lparr>events := events w @ [Remove vid_path False]\<rparr>)))"

text \<open>The list file is removed with every error ignored.\<close>

definition remove_list_file :: "string \<Rightarrow> world \<Rightarrow> world" where
  "remove_list_file p w =
     (case os_remove p w of
        Return w' \<Rightarrow> w'\<lparr>events := events w' @ [Remove p True]\<rparr>
      | Raise e \<Rightarrow> w\<lparr>events := events w @ [Remove p False]\<rparr>)"

definition call_callback :: "callback option \<Rightarrow> string \<Rightarrow> world \<Rightarrow> world" where
  "call_callback callback output_path w =
     (case callback of
        None \<Rightarrow> w
      | Some cb \<Rightarrow>
          (let w' = w\<lparr>events := events w @ [Called output_path]\<rparr> in
           case cb output_path of
             None \<Rightarrow> w'
           | Some e \<Rightarrow> script_log LOG_ERROR (''Error during video stitching: '' @ e) w'))"

text \<open>The steps after FFmpeg has exited with status zero.\<close>

definition after_success ::
  "string \<Rightarrow> string \<Rightarrow> string \<Rightarrow> string list \<Rightarrow> bool \<Rightarrow> callback option \<Rightarrow> world \<Rightarrow> world" where
  "after_success list_path folder_path output_path video_files cleanup_source callback w =
     (let w1 = script_log LOG_INFO (''Successfully stitched videos into '' @ output_path) w;
          w2 = (if cleanup_source \<and> \<not> startswith output_path ''_comp_''
                then cleanup_sources folder_path video_files w1 else w1);
          w3 = remove_list_file list_path w2
      in call_callback callback output_path w3)"

text \<open>The body of the \<^verbatim>\<open>try\<close> with its two \<^verbatim>\<open>except\<close> clauses. The external program is the
  parameter \<open>run\<close>: from the command line and the file system it finds, what
  \<^verbatim>\<open>subprocess.run\<close> observes and the file system it leaves.\<close>

definition try_body ::
  "(string list \<Rightarrow> (string \<rightharpoonup> node) \<Rightarrow> completed \<times> (string \<rightharpoonup> node)) \<Rightarrow>
   string \<Rightarrow> string \<Rightarrow> string \<Rightarrow> string list \<Rightarrow> bool \<Rightarrow> callback option \<Rightarrow> world \<Rightarrow> world" where
  "try_body run compilation_name folder_path output_path video_files cleanup_source callback w =
     (let list_path = list_file_path folder_path compilation_name in
      case write_list_file list_path folder_path video_files w of
        (Some e, w1) \<Rightarrow> script_log LOG_ERROR (''Error during video stitching: '' @ e) w1
      | (None, w1) \<Rightarrow>
         (let ffmpeg_config =
                (case config_data w1 of None \<Rightarrow> \<lparr>Path = None, Args = None\<rparr> | Some c \<Rightarrow> c);
              ffmpeg_path = (case Path ffmpeg_config of None \<Rightarrow> ''ffmpeg'' | Some p \<Rightarrow> p)
          in if \<not> os_path_exists w1 ffmpeg_path
             then script_log LOG_ERROR
                    (''FFmpeg path not found: '' @ ffmpeg_path @ ''. Please check your config.'') w1
             else
              (let ffmpeg_cmd =
                     [ffmpeg_path, ''-f'', ''concat'', ''-safe'', ''0'', ''-i'', list_path, ''-c'', ''copy'']
                     @ (case Args ffmpeg_config of None \<Rightarrow> [] | Some a \<Rightarrow> a)
                     @ [output_path];
                   (res, fs) = run ffmpeg_cmd (files w1);
                   w2 = w1\<lparr>files := fs, events := events w1 @ [Ran ffmpeg_cmd res]\<rparr>
               in case res of
                    NotLaunched e \<Rightarrow>
                      script_log LOG_ERROR (''Error during video stitching: '' @ e) w2
                  | Undecodable rc e \<Rightarrow>
                      script_log LOG_ERROR (''Error during video stitching: '' @ e) w2
                  | Exited rc err \<Rightarrow>
                      if rc \<noteq> 0 then script_log LOG_ERROR (''FFmpeg error: '' @ err) w2
                      else after_success list_path folder_path output_path video_files
                             cleanup_source callback w2)))"

text \<open>The \<^verbatim>\<open>finally\<close> clause runs after every branch of the body.\<close>

definition process_videos ::
  "(string list \<Rightarrow> (string \<rightharpoonup> node) \<Rightarrow> completed \<times> (string \<rightharpoonup> node)) \<Rightarrow> thread \<Rightarrow> world \<Rightarrow> world" where
  "process_videos run th w =
     (case th of Thread compilation_name folder_path output_path video_files cleanup_source callback \<Rightarrow>
        unregister_stitch compilation_name
          (try_body run compilation_name folder_path output_path video_files
             cleanup_source callback w))"

subsection \<open>Submission: \<^verbatim>\<open>stitch_videos_async\<close>\<close>

text \<open>The snapshot: \<^verbatim>\<open>[f for f in os.listdir(folder_path) if f.endswith(".mp4")]\<close>.\<close>

definition list_videos :: "world \<Rightarrow> string \<Rightarrow> string list result" where
  "list_videos w folder_path =
     (case os_listdir w folder_path of
        Raise e \<Rightarrow> Raise e
      | Return names \<Rightarrow> Return (filter (\<lambda>f. endswith f ''.mp4'') names))"

text \<open>The ordering step: the default key is the modification time of the joined path.\<close>

definition apply_sorting ::
  "world \<Rightarrow> string \<Rightarrow> (string \<Rightarrow> ('k::linorder) result) option \<Rightarrow> string list \<Rightarrow> string list result" where
  "apply_sorting w folder_path sort_lambda video_files =
     (case sort_lambda of
        None \<Rightarrow> sorted_key (\<lambda>f. os_path_getmtime w (os_path_join folder_path f)) video_files
      | Some key \<Rightarrow> sorted_key key video_files)"

definition log_order :: "string \<Rightarrow> string list \<Rightarrow> world \<Rightarrow> world" where
  "log_order compilation_name video_files w =
     foldl (\<lambda>w video. script_log LOG_INFO (''- '' @ video) w)
       (script_log LOG_INFO (''Stitching videos for '' @ quoted compilation_name @ '':'') w)
       video_files"

text \<open>The function returns \<^verbatim>\<open>None\<close> or the output path, or leaves by an exception; the
  second component is the thread it started, if any.

  The part from the registration on. The checks before it hold no lock, so by the time
  this part runs another thread may have changed the registry: it is a function of the
  world it finds.\<close>

definition register_and_start ::
  "string \<Rightarrow> string \<Rightarrow> string \<Rightarrow> (string \<Rightarrow> ('k::linorder) result) option \<Rightarrow> bool \<Rightarrow>
   callback option \<Rightarrow> string list \<Rightarrow> world \<Rightarrow> string option result \<times> thread option \<times> world" where
  "register_and_start compilation_name folder_path output_path sort_lambda cleanup_source callback
       video_files w =
     (case register_stitch compilation_name folder_path output_path w of
        (False, w1) \<Rightarrow> (Return None, None, w1)
      | (True, w1) \<Rightarrow>
         (case apply_sorting w1 folder_path sort_lambda video_files of
            Raise e \<Rightarrow> (Raise e, None, w1)
          | Return ordered \<Rightarrow>
              (Return (Some output_path),
               Some (Thread compilation_name folder_path output_path ordered
                       cleanup_source callback),
               log_order compilation_name ordered w1)))"

definition stitch_videos_async ::
  "string \<Rightarrow> string \<Rightarrow> string \<Rightarrow> (string \<Rightarrow> ('k::linorder) result) option \<Rightarrow> bool \<Rightarrow>
   callback option \<Rightarrow> world \<Rightarrow> string option result \<times> thread option \<times> world" where
  "stitch_videos_async compilation_name folder_path output_path sort_lambda cleanup_source callback w =
     (if is_stitching w compilation_name
      then (Return None, None,
            script_log LOG_WARNING
              (''Already stitching compilation '' @ quoted compilation_name @ ''. Skipping request.'') w)
      else if \<not> os_path_exists w folder_path \<or> \<not> os_path_isdir w folder_path
      then (Return None, None,
            script_log LOG_WARNING (''Invalid folder path: '' @ folder_path) w)
      else
       (case list_videos w folder_path of
          Raise e \<Rightarrow> (Raise e, None, w)
        | Return video_files \<Rightarrow>
            if video_files = []
            then (Return None, None,
                  script_log LOG_WARNING ''No video files found to stitch.'' w)
            else register_and_start compilation_name folder_path output_path sort_lambda
                   cleanup_source callback video_files w))"

section \<open>Observations on a run\<close>

text \<open>What a step added to the trace, and the projections of a trace the properties
  below speak about.\<close>

definition new_events :: "world \<Rightarrow> world \<Rightarrow> event list" where
  "new_events w w' = drop (length (events w)) (events w')"

definition callback_calls :: "event list \<Rightarrow> string list" where
  "callback_calls es = concat (map (\<lambda>e. case e of Called p \<Rightarrow> [p] | _ \<Rightarrow> []) es)"

definition remove_calls :: "event list \<Rightarrow> string list" where
  "remove_calls es = concat (map (\<lambda>e. case e of Remove p ok \<Rightarrow> [p] | _ \<Rightarrow> []) es)"

text \<open>\<^verbatim>\<open>subprocess.run\<close> returned, with return code zero.\<close>

definition run_returned_zero :: "event list \<Rightarrow> bool" where
  "run_returned_zero es = list_ex (\<lambda>e. case e of Ran cmd (Exited rc err) \<Rightarrow> rc = 0 | _ \<Rightarrow> False) es"

text \<open>The external program exited with status zero, whether or not \<^verbatim>\<open>subprocess.run\<close>
  could read its output.\<close>

definition exit_zero :: "event list \<Rightarrow> bool" where
  "exit_zero es =
     list_ex (\<lambda>e. case e of
                     Ran cmd (Exited rc err) \<Rightarrow> rc = 0
                   | Ran cmd (Undecodable rc err) \<Rightarrow> rc = 0
                   | _ \<Rightarrow> False) es"

text \<open>The two events of one round of the deletion loop; \<open>r\<close> is the text of the exception
  of \<^verbatim>\<open>os.remove\<close>, if it raised.\<close>

definition deletion_events :: "string \<Rightarrow> string \<Rightarrow> string option \<Rightarrow> event list" where
  "deletion_events folder_path video r =
     [Remove (os_path_join folder_path video) (r = None),
      (case r of
         None \<Rightarrow> Log LOG_INFO (''Deleted source video: '' @ video)
       | Some e \<Rightarrow> Log LOG_ERROR (''Failed to delete video '' @ video @ '': '' @ e))]"

text \<open>The events of the call of the callback, if one was supplied.\<close>

definition callback_events :: "callback option \<Rightarrow> string \<Rightarrow> event list" where
  "callback_events callback output_path =
     (case callback of
        None \<Rightarrow> []
      | Some cb \<Rightarrow>
          Called output_path #
          (case cb output_path of
             None \<Rightarrow> []
           | Some e \<Rightarrow> [Log LOG_ERROR (''Error during video stitching: '' @ e)]))"

text \<open>A file that \<^verbatim>\<open>os.remove\<close> would delete is at \<open>p\<close>.\<close>

definition still_there :: "world \<Rightarrow> string \<Rightarrow> bool" where
  "still_there w p = (case files w p of Some (File t c) \<Rightarrow> p \<notin> undeletable w | _ \<Rightarrow> False)"

text \<open>The traces of the five ways a worker fails: the list file cannot be written, the
  FFmpeg path does not exist, FFmpeg cannot be launched, the output of FFmpeg cannot be
  decoded, FFmpeg exits with a non-zero status.\<close>

definition failure_events :: "string \<Rightarrow> string \<Rightarrow> event list \<Rightarrow> bool" where
  "failure_events list_path txt es =
     ((\<exists>e. es = [Log LOG_ERROR (''Error during video stitching: '' @ e)])
    \<or> (\<exists>p. es = [Write list_path txt,
                  Log LOG_ERROR (''FFmpeg path not found: '' @ p @ ''. Please check your config.'')])
    \<or> (\<exists>cmd e. es = [Write list_path txt, Ran cmd (NotLaunched e),
                      Log LOG_ERROR (''Error during video stitching: '' @ e)])
    \<or> (\<exists>cmd rc e. es = [Write list_path txt, Ran cmd (Undecodable rc e),
                      Log LOG_ERROR (''Error during video stitching: '' @ e)])
    \<or> (\<exists>cmd rc err. rc \<noteq> 0 \<and>
           es = [Write list_path txt, Ran cmd (Exited rc err),
                 Log LOG_ERROR (''FFmpeg error: '' @ err)]))"

text \<open>The trace after FFmpeg has exited with status zero.\<close>

definition success_events ::
  "string \<Rightarrow> string \<Rightarrow> string \<Rightarrow> string list \<Rightarrow> bool \<Rightarrow> callback option \<Rightarrow> event list \<Rightarrow> bool" where
  "success_events list_path folder_path output_path video_files cleanup_source callback es =
     (\<exists>rs ok.
        length rs = length video_files \<and>
        es = [Log LOG_INFO (''Successfully stitched videos into '' @ output_path)]
             @ (if cleanup_source \<and> \<not> startswith output_path ''_comp_''
                then concat (map (\<lambda>(v, r). deletion_events folder_path v r) (zip video_files rs))
                else [])
             @ [Remove list_path ok]
             @ callback_events callback output_path)"

text \<open>The trace a worker can leave.\<close>

definition worker_events ::
  "string \<Rightarrow> string \<Rightarrow> string \<Rightarrow> string list \<Rightarrow> bool \<Rightarrow> callback option \<Rightarrow> event list \<Rightarrow> bool" where
  "worker_events compilation_name folder_path output_path video_files cleanup_source callback es =
     (let lp = list_file_path folder_path compilation_name;
          txt = list_file_text folder_path video_files
      in failure_events lp txt es
       \<or> (\<exists>cmd err es'.
            es = [Write lp txt, Ran cmd (Exited 0 err)] @ es' \<and>
            success_events lp folder_path output_path video_files cleanup_source callback es'))"

definition write_calls :: "event list \<Rightarrow> (string \<times> string) list" where
  "write_calls es = concat (map (\<lambda>e. case e of Write p t \<Rightarrow> [(p, t)] | _ \<Rightarrow> []) es)"

definition tool_runs :: "event list \<Rightarrow> string list list" where
  "tool_runs es = concat (map (\<lambda>e. case e of Ran cmd res \<Rightarrow> [cmd] | _ \<Rightarrow> []) es)"

text \<open>The lines of a text whose lines end in a newline character, as a reader of the list
  file splits it.\<close>

definition text_lines :: "string \<Rightarrow> string list" where
  "text_lines s =
     foldr (\<lambda>c acc. if c = CHR 0x0A then [] # acc
                     else (case acc of [] \<Rightarrow> [[c]] | l # ls \<Rightarrow> (c # l) # ls)) s []"

section \<open>Example worlds\<close>

text \<open>The modification time of a whole number of seconds, which the float holds as it
  is.\<close>

definition whole_seconds :: "int \<Rightarrow> stat_result" where
  "whole_seconds n = \<lparr>st_mtime_ns = n * 1000000000, st_mtime = of_int n\<rparr>"

text \<open>A folder \<^verbatim>\<open>/v\<close> with two videos and a text file, FFmpeg installed, nothing
  registered; an FFmpeg that succeeds and writes the output file.\<close>

definition demo_world :: world where
  "demo_world =
     \<lparr>active_stitches = Map.empty,
      config_data = Some \<lparr>Path = Some ''/usr/bin/ffmpeg'', Args = None\<rparr>,
      files = [''/v'' \<mapsto> Dir (whole_seconds 0) [''b.mp4'', ''notes.txt'', ''a.mp4''],
               ''/v/a.mp4'' \<mapsto> File (whole_seconds 1) ''A'',
               ''/v/b.mp4'' \<mapsto> File (whole_seconds 2) ''B'',
               ''/v/notes.txt'' \<mapsto> File (whole_seconds 3) ''N'',
               ''/usr/bin/ffmpeg'' \<mapsto> File (whole_seconds 0) ''''],
      unwritable = Map.empty,
      unencodable = {},
      undeletable = {},
      clock = 10,
      stamp = whole_seconds 10,
      events = []\<rparr>"

definition demo_run :: "string list \<Rightarrow> (string \<rightharpoonup> node) \<Rightarrow> completed \<times> (string \<rightharpoonup> node)" where
  "demo_run cmd fs = (Exited 0 [], fs(last cmd \<mapsto> File (whole_seconds 20) ''stitched''))"

definition demo_thread :: thread where
  "demo_thread = Thread ''demo'' ''/v'' ''/out/demo.mp4'' [''a.mp4'', ''b.mp4''] True (Some (\<lambda>p. None))"

text \<open>The same world where the first video cannot be deleted.\<close>

definition locked_world :: world where
  "locked_world = demo_world\<lparr>undeletable := {''/v/a.mp4''}\<rparr>"

text \<open>The same world with an FFmpeg path that does not exist.\<close>

definition no_tool_world :: world where
  "no_tool_world = demo_world\<lparr>config_data := Some \<lparr>Path = Some ''/opt/ffmpeg'', Args = None\<rparr>\<rparr>"

text \<open>An FFmpeg that writes the output file and exits with status zero, having written
  bytes to its standard error that are not text.\<close>

definition garbled_run :: "string list \<Rightarrow> (string \<rightharpoonup> node) \<Rightarrow> completed \<times> (string \<rightharpoonup> node)" where
  "garbled_run cmd fs =
     (Undecodable 0 ''codec cannot decode byte 0xff in position 0: invalid start byte'',
      fs(last cmd \<mapsto> File (whole_seconds 20) ''stitched''))"

text \<open>The same world where the line for the second video cannot be encoded.\<close>

definition odd_name_world :: world where
  "odd_name_world = demo_world\<lparr>unencodable := {list_line ''/v/b.mp4''}\<rparr>"


text \<open>An FFmpeg that exits with status one.\<close>

definition failing_run :: "string list \<Rightarrow> (string \<rightharpoonup> node) \<Rightarrow> completed \<times> (string \<rightharpoonup> node)" where
  "failing_run cmd fs = (Exited 1 ''Invalid data found'', fs)"

text \<open>A thread whose output path is absolute with a file name that begins with
  \<^verbatim>\<open>_comp_\<close>.\<close>

definition comp_thread :: thread where
  "comp_thread = Thread ''demo'' ''/v'' ''/v/_comp_demo.mp4'' [''a.mp4'', ''b.mp4''] True None"

text \<open>The submission of \<^verbatim>\<open>demo\<close> where the FFmpeg path does not exist.\<close>

definition no_tool_submit :: "string option result \<times> thread option \<times> world" where
  "no_tool_submit =
     stitch_videos_async ''demo'' ''/v'' ''/out/demo.mp4'' (None :: (string \<Rightarrow> real result) option)
       True (Some (\<lambda>p. None)) no_tool_world"

text \<open>A key function that puts \<^verbatim>\<open>b.mp4\<close> first.\<close>

definition newest_first_key :: "string \<Rightarrow> nat result" where
  "newest_first_key f = Return (if f = ''b.mp4'' then 0 else 1)"


text \<open>The folder lists an entry that cannot be read.\<close>

definition broken_world :: world where
  "broken_world =
     demo_world\<lparr>files := (files demo_world)(''/v'' \<mapsto> Dir (whole_seconds 0) [''b.mp4'', ''gone.mp4'', ''a.mp4''])\<rparr>"

text \<open>A folder given by a relative path.\<close>

definition rel_world :: world where
  "rel_world =
     \<lparr>active_stitches = Map.empty,
      config_data = Some \<lparr>Path = Some ''/usr/bin/ffmpeg'', Args = None\<rparr>,
      files = [''clips'' \<mapsto> Dir (whole_seconds 0) [''a.mp4''],
               ''clips/a.mp4'' \<mapsto> File (whole_seconds 1) ''A'',
               ''/usr/bin/ffmpeg'' \<mapsto> File (whole_seconds 0) ''''],
      unwritable = Map.empty,
      unencodable = {},
      undeletable = {},
      clock = 10,
      stamp = whole_seconds 10,
      events = []\<rparr>"

definition rel_thread :: thread where
  "rel_thread = Thread ''demo'' ''clips'' ''out.mp4'' [''a.mp4''] False None"

text \<open>A submission of \<^verbatim>\<open>demo\<close> without callback that has passed the checks and goes on
  to the registration, where the FFmpeg path does not exist; and its thread.\<close>

definition plain_thread :: thread where
  "plain_thread = Thread ''demo'' ''/v'' ''/out/demo.mp4'' [''a.mp4'', ''b.mp4''] True None"

definition first_accepted :: "string option result \<times> thread option \<times> world" where
  "first_accepted =
     register_and_start ''demo'' ''/v'' ''/out/demo.mp4'' (None :: (string \<Rightarrow> real result) option)
       True None [''b.mp4'', ''a.mp4''] no_tool_world"


section \<open>Evaluation of the examples\<close>

lemmas eval_defs = demo_world_def demo_run_def demo_thread_def process_videos_def try_body_def
  after_success_def call_callback_def remove_list_file_def os_remove_def unlink_def link_def
  write_list_file_def open_w_def f_write_def read_text_def whole_seconds_def
  list_file_path_def list_file_text_def list_line_def quoted_def os_path_join_def
  startswith_def endswith_def suffix_to_prefix script_log_def os_path_exists_def
  unregister_stitch_def new_events_def Let_def

lemma demo_run_returned_zero:
  "run_returned_zero (new_events demo_world (process_videos demo_run demo_thread demo_world))"
  by (simp add: eval_defs run_returned_zero_def)

lemmas submit_defs = stitch_videos_async_def register_and_start_def list_videos_def
  apply_sorting_def sorted_key_def log_order_def is_stitching_def register_stitch_def
  os_path_isdir_def os_listdir_def os_path_getmtime_def os_path_exists_def os_path_join_def
  startswith_def endswith_def suffix_to_prefix script_log_def quoted_def whole_seconds_def

lemma locked_events:
  "events (process_videos demo_run demo_thread locked_world) =
     [Write ''/v/file_list_demo.txt''
        (''file '' @ quoted ''/v/a.mp4'' @ [CHR 0x0A] @ ''file '' @ quoted ''/v/b.mp4'' @ [CHR 0x0A]),
      Ran [''/usr/bin/ffmpeg'', ''-f'', ''concat'', ''-safe'', ''0'', ''-i'',
           ''/v/file_list_demo.txt'', ''-c'', ''copy'', ''/out/demo.mp4''] (Exited 0 []),
      Log LOG_INFO ''Successfully stitched videos into /out/demo.mp4'',
      Remove ''/v/a.mp4'' False,
      Log LOG_ERROR (''Failed to delete video a.mp4: [Errno 13] Permission denied: '' @ quoted ''/v/a.mp4''),
      Remove ''/v/b.mp4'' True, Log LOG_INFO ''Deleted source video: b.mp4'',
      Remove ''/v/file_list_demo.txt'' True, Called ''/out/demo.mp4'']"
  by (simp add: eval_defs locked_world_def)

lemma comp_events:
  "events (process_videos demo_run comp_thread demo_world) =
     [Write ''/v/file_list_demo.txt''
        (''file '' @ quoted ''/v/a.mp4'' @ [CHR 0x0A] @ ''file '' @ quoted ''/v/b.mp4'' @ [CHR 0x0A]),
      Ran [''/usr/bin/ffmpeg'', ''-f'', ''concat'', ''-safe'', ''0'', ''-i'',
           ''/v/file_list_demo.txt'', ''-c'', ''copy'', ''/v/_comp_demo.mp4''] (Exited 0 []),
      Log LOG_INFO ''Successfully stitched videos into /v/_comp_demo.mp4'',
      Remove ''/v/a.mp4'' True, Log LOG_INFO ''Deleted source video: a.mp4'',
      Remove ''/v/b.mp4'' True, Log LOG_INFO ''Deleted source video: b.mp4'',
      Remove ''/v/file_list_demo.txt'' True]"
  by (simp add: eval_defs comp_thread_def)

lemma no_tool_submit_eval:
  "fst no_tool_submit = Return (Some ''/out/demo.mp4'')"
  "fst (snd no_tool_submit) = Some demo_thread"
  "is_stitching (snd (snd no_tool_submit)) ''demo''"
  by (simp_all add: no_tool_submit_def no_tool_world_def demo_world_def demo_thread_def submit_defs)

lemma demo_list_videos: "list_videos demo_world ''/v'' = Return [''b.mp4'', ''a.mp4'']"
  by (simp add: demo_world_def submit_defs)

lemma demo_submit_key:
  "fst (snd (stitch_videos_async ''demo'' ''/v'' ''/out/demo.mp4'' (Some newest_first_key)
               True None demo_world))
     = Some (Thread ''demo'' ''/v'' ''/out/demo.mp4'' [''b.mp4'', ''a.mp4''] True None)"
  by (simp add: demo_world_def submit_defs newest_first_key_def)

lemma broken_list_videos:
  "list_videos broken_world ''/v'' = Return [''b.mp4'', ''gone.mp4'', ''a.mp4'']"
  by (simp add: broken_world_def demo_world_def submit_defs)

lemma rel_submit:
  "fst (snd (stitch_videos_async ''demo'' ''clips'' ''out.mp4''
               (None :: (string \<Rightarrow> real result) option) False None rel_world)) = Some rel_thread"
  by (simp add: rel_world_def rel_thread_def submit_defs)

lemma rel_events:
  "events (process_videos demo_run rel_thread rel_world) =
     [Write ''clips/file_list_demo.txt'' (''file '' @ quoted ''clips/a.mp4'' @ [CHR 0x0A]),
      Ran [''/usr/bin/ffmpeg'', ''-f'', ''concat'', ''-safe'', ''0'', ''-i'',
           ''clips/file_list_demo.txt'', ''-c'', ''copy'', ''out.mp4''] (Exited 0 []),
      Log LOG_INFO ''Successfully stitched videos into out.mp4'',
      Remove ''clips/file_list_demo.txt'' True]"
  by (simp add: eval_defs rel_world_def rel_thread_def)

lemma first_accepted_eval:
  "fst first_accepted = Return (Some ''/out/demo.mp4'')"
  "fst (snd first_accepted) = Some plain_thread"
  by (simp_all add: first_accepted_def no_tool_world_def demo_world_def plain_thread_def submit_defs)

lemma garbled_events:
  "events (process_videos garbled_run demo_thread demo_world) =
     [Write ''/v/file_list_demo.txt''
        (''file '' @ quoted ''/v/a.mp4'' @ [CHR 0x0A] @ ''file '' @ quoted ''/v/b.mp4'' @ [CHR 0x0A]),
      Ran [''/usr/bin/ffmpeg'', ''-f'', ''concat'', ''-safe'', ''0'', ''-i'',
           ''/v/file_list_demo.txt'', ''-c'', ''copy'', ''/out/demo.mp4'']
        (Undecodable 0 ''codec cannot decode byte 0xff in position 0: invalid start byte''),
      Log LOG_ERROR
        ''Error during video stitching: codec cannot decode byte 0xff in position 0: invalid start byte'']"
  by (simp add: eval_defs garbled_run_def)

lemma odd_name_file:
  "files (process_videos demo_run demo_thread odd_name_world) ''/v/file_list_demo.txt''
     = Some (File (whole_seconds 10) (list_line ''/v/a.mp4''))"
  by (simp add: eval_defs odd_name_world_def)

section \<open>The registry\<close>

lemma log_order_fields:
  "active_stitches (log_order n vs w) = active_stitches w"
  "files (log_order n vs w) = files w"
proof -
  have a: "active_stitches (foldl (\<lambda>w video. script_log LOG_INFO (''- '' @ video) w) w0 vs)
             = active_stitches w0" for w0
    by (induction vs arbitrary: w0) (simp_all add: script_log_def)
  have b: "files (foldl (\<lambda>w video. script_log LOG_INFO (''- '' @ video) w) w0 vs)
             = files w0" for w0
    by (induction vs arbitrary: w0) (simp_all add: script_log_def)
  show "active_stitches (log_order n vs w) = active_stitches w"
    unfolding log_order_def a by (simp add: script_log_def)
  show "files (log_order n vs w) = files w"
    unfolding log_order_def b by (simp add: script_log_def)
qed

lemma register_and_start_registered:
  "is_stitching (snd (snd (register_and_start n f p sl c cb vs w))) n"
  by (auto simp: register_and_start_def register_stitch_def is_stitching_def log_order_fields
           split: result.splits)

lemma register_and_start_lost:
  "is_stitching w n \<Longrightarrow> register_and_start n f p sl c cb vs w = (Return None, None, w)"
  by (simp add: register_and_start_def register_stitch_def is_stitching_def)

lemma unregister_stitch_events: "events (unregister_stitch n w) = events w"
  by (simp add: unregister_stitch_def)

lemma unregister_stitch_registry:
  "active_stitches (unregister_stitch n w) = (active_stitches w)(n := None)"
  by (auto simp add: unregister_stitch_def)

section \<open>The trace of the worker\<close>

lemma os_remove_Return:
  "os_remove p w = Return w' \<Longrightarrow> w' = w\<lparr>files := unlink p (files w)\<rparr>"
  by (auto simp: os_remove_def split: option.splits node.splits if_splits)

lemma cleanup_sources_events:
  "\<exists>rs. length rs = length vs \<and>
        events (cleanup_sources folder_path vs w) =
          events w @ concat (map (\<lambda>(v, r). deletion_events folder_path v r) (zip vs rs))"
proof (induction vs arbitrary: w)
  case Nil
  then show ?case by simp
next
  case (Cons v vs)
  show ?case
  proof (cases "os_remove (os_path_join folder_path v) w")
    case (Return w')
    let ?w1 = "script_log LOG_INFO (''Deleted source video: '' @ v)
                 (w'\<lparr>events := events w' @ [Remove (os_path_join folder_path v) True]\<rparr>)"
    from Cons.IH [of ?w1] obtain rs where rs: "length rs = length vs"
      "events (cleanup_sources folder_path vs ?w1) =
         events ?w1 @ concat (map (\<lambda>(v, r). deletion_events folder_path v r) (zip vs rs))"
      by blast
    have "events w' = events w" using os_remove_Return [OF Return] by simp
    then have "events (cleanup_sources folder_path (v # vs) w) =
      events w @ concat (map (\<lambda>(v, r). deletion_events folder_path v r) (zip (v # vs) (None # rs)))"
      using Return rs(2) by (simp add: script_log_def deletion_events_def)
    moreover have "length (None # rs) = length (v # vs)" using rs(1) by simp
    ultimately show ?thesis by blast
  next
    case (Raise e)
    let ?w1 = "script_log LOG_ERROR (''Failed to delete video '' @ v @ '': '' @ e)
                 (w\<lparr>events := events w @ [Remove (os_path_join folder_path v) False]\<rparr>)"
    from Cons.IH [of ?w1] obtain rs where rs: "length rs = length vs"
      "events (cleanup_sources folder_path vs ?w1) =
         events ?w1 @ concat (map (\<lambda>(v, r). deletion_events folder_path v r) (zip vs rs))"
      by blast
    have "events (cleanup_sources folder_path (v # vs) w) =
      events w @ concat (map (\<lambda>(v, r). deletion_events folder_path v r) (zip (v # vs) (Some e # rs)))"
      using Raise rs(2) by (simp add: script_log_def deletion_events_def)
    moreover have "length (Some e # rs) = length (v # vs)" using rs(1) by simp
    ultimately show ?thesis by blast
  qed
qed

lemma cleanup_sources_registry:
  "active_stitches (cleanup_sources folder_path vs w) = active_stitches w"
proof (induction vs arbitrary: w)
  case Nil
  then show ?case by simp
next
  case (Cons v vs)
  show ?case
    by (cases "os_remove (os_path_join folder_path v) w")
       (auto simp: Cons.IH script_log_def dest: os_remove_Return)
qed

lemma f_write_result:
  "f_write p s w =
     (if s \<in> unencodable w
      then Raise ''codec cannot encode the text: surrogates not allowed''
      else Return (w\<lparr>files := (files w)(p \<mapsto>
                      (case files w p of
                         Some (File t c) \<Rightarrow> File t (c @ s)
                       | _ \<Rightarrow> File (stamp w) s))\<rparr>))"
  by (simp add: f_write_def)

text \<open>The loop writes the lines of the videos up to the first that cannot be encoded, and
  touches nothing but the file.\<close>

lemma write_lines_result:
  assumes "files w p = Some (File t c)"
  shows "files (snd (write_lines p f vs w)) p =
           Some (File t (c @ list_file_text f
                   (takeWhile (\<lambda>v. list_line (os_path_join f v) \<notin> unencodable w) vs)))"
    and "(fst (write_lines p f vs w) = None) =
           (\<forall>v\<in>set vs. list_line (os_path_join f v) \<notin> unencodable w)"
    and "events (snd (write_lines p f vs w)) = events w"
    and "active_stitches (snd (write_lines p f vs w)) = active_stitches w"
    and "config_data (snd (write_lines p f vs w)) = config_data w"
    and "undeletable (snd (write_lines p f vs w)) = undeletable w"
proof -
  have "files (snd (write_lines p f vs w)) p =
           Some (File t (c @ list_file_text f
                   (takeWhile (\<lambda>v. list_line (os_path_join f v) \<notin> unencodable w) vs)))
      \<and> (fst (write_lines p f vs w) = None) =
           (\<forall>v\<in>set vs. list_line (os_path_join f v) \<notin> unencodable w)
      \<and> events (snd (write_lines p f vs w)) = events w
      \<and> active_stitches (snd (write_lines p f vs w)) = active_stitches w
      \<and> config_data (snd (write_lines p f vs w)) = config_data w
      \<and> undeletable (snd (write_lines p f vs w)) = undeletable w"
    using assms
  proof (induction vs arbitrary: w c)
    case Nil
    then show ?case by (simp add: list_file_text_def)
  next
    case (Cons v vs)
    let ?l = "list_line (os_path_join f v)"
    show ?case
    proof (cases "?l \<in> unencodable w")
      case True
      then show ?thesis using Cons.prems by (simp add: f_write_result list_file_text_def)
    next
      case False
      let ?w' = "w\<lparr>files := (files w)(p \<mapsto> File t (c @ ?l))\<rparr>"
      have step: "write_lines p f (v # vs) w = write_lines p f vs ?w'"
        using False Cons.prems by (simp add: f_write_result)
      have "files ?w' p = Some (File t (c @ ?l))" by simp
      from Cons.IH [OF this] show ?thesis
        unfolding step using False by (simp add: list_file_text_def)
    qed
  qed
  then show "files (snd (write_lines p f vs w)) p =
           Some (File t (c @ list_file_text f
                   (takeWhile (\<lambda>v. list_line (os_path_join f v) \<notin> unencodable w) vs)))"
    and "(fst (write_lines p f vs w) = None) =
           (\<forall>v\<in>set vs. list_line (os_path_join f v) \<notin> unencodable w)"
    and "events (snd (write_lines p f vs w)) = events w"
    and "active_stitches (snd (write_lines p f vs w)) = active_stitches w"
    and "config_data (snd (write_lines p f vs w)) = config_data w"
    and "undeletable (snd (write_lines p f vs w)) = undeletable w"
    by simp_all
qed

lemma open_w_Return:
  assumes "open_w p w = Return w0"
  shows "files w0 p = Some (File (stamp w) [])"
    and "events w0 = events w" and "active_stitches w0 = active_stitches w"
    and "config_data w0 = config_data w" and "undeletable w0 = undeletable w"
    and "unencodable w0 = unencodable w"
  using assms
  by (auto simp: open_w_def split: option.splits node.splits if_splits)

lemma takeWhile_all: "\<forall>x\<in>set xs. P x \<Longrightarrow> takeWhile P xs = xs"
  by (induction xs) auto

text \<open>When the block is left normally the file holds the line of every video.\<close>

lemma write_list_file_None:
  assumes "write_list_file p f vs w = (None, w1)"
  shows "events w1 = events w @ [Write p (list_file_text f vs)]"
    and "active_stitches w1 = active_stitches w"
    and "config_data w1 = config_data w"
    and "undeletable w1 = undeletable w"
    and "files w1 p = Some (File (stamp w) (list_file_text f vs))"
proof -
  from assms obtain w0 where o: "open_w p w = Return w0"
    by (cases "open_w p w") (auto simp: write_list_file_def)
  note ow = open_w_Return [OF o]
  note wl = write_lines_result [OF ow(1), of f vs]
  obtain r w' where r: "write_lines p f vs w0 = (r, w')" by (cases "write_lines p f vs w0")
  with assms o have rn: "r = None" and w1: "w1 = w'\<lparr>events := events w' @ [Write p (read_text w' p)]\<rparr>"
    by (auto simp: write_list_file_def split: option.splits)
  from wl(2) r rn have "\<forall>v\<in>set vs. list_line (os_path_join f v) \<notin> unencodable w0" by simp
  then have tw: "takeWhile (\<lambda>v. list_line (os_path_join f v) \<notin> unencodable w0) vs = vs"
    by (rule takeWhile_all)
  have fw: "files w' p = Some (File (stamp w) (list_file_text f vs))"
    using wl(1) r tw by simp
  then have rt: "read_text w' p = list_file_text f vs" by (simp add: read_text_def)
  show "events w1 = events w @ [Write p (list_file_text f vs)]"
    using wl(3) r ow(2) by (simp add: w1 rt)
  show "active_stitches w1 = active_stitches w" using wl(4) r ow(3) by (simp add: w1)
  show "config_data w1 = config_data w" using wl(5) r ow(4) by (simp add: w1)
  show "undeletable w1 = undeletable w" using wl(6) r ow(5) by (simp add: w1)
  show "files w1 p = Some (File (stamp w) (list_file_text f vs))" using fw by (simp add: w1)
qed

text \<open>When the block is left by an exception nothing but the file has changed; if the file
  could be opened it holds the lines of the videos before the first that cannot be
  encoded.\<close>

lemma write_list_file_Some:
  assumes "write_list_file p f vs w = (Some e, w1)"
  shows "events w1 = events w"
    and "active_stitches w1 = active_stitches w"
    and "open_w p w = Return w0 \<Longrightarrow>
           files w1 p = Some (File (stamp w) (list_file_text f
              (takeWhile (\<lambda>v. list_line (os_path_join f v) \<notin> unencodable w) vs)))"
proof -
  show "events w1 = events w"
  proof (cases "open_w p w")
    case (Raise x)
    with assms show ?thesis by (simp add: write_list_file_def)
  next
    case (Return w0')
    note ow = open_w_Return [OF Return]
    from assms Return have "w1 = snd (write_lines p f vs w0')"
      by (cases "write_lines p f vs w0'") (auto simp: write_list_file_def split: option.splits)
    then show ?thesis using write_lines_result(3) [OF ow(1)] ow(2) by simp
  qed
  show "active_stitches w1 = active_stitches w"
  proof (cases "open_w p w")
    case (Raise x)
    with assms show ?thesis by (simp add: write_list_file_def)
  next
    case (Return w0')
    note ow = open_w_Return [OF Return]
    from assms Return have "w1 = snd (write_lines p f vs w0')"
      by (cases "write_lines p f vs w0'") (auto simp: write_list_file_def split: option.splits)
    then show ?thesis using write_lines_result(4) [OF ow(1)] ow(3) by simp
  qed
  show "files w1 p = Some (File (stamp w) (list_file_text f
              (takeWhile (\<lambda>v. list_line (os_path_join f v) \<notin> unencodable w) vs)))"
    if o: "open_w p w = Return w0"
  proof -
    note ow = open_w_Return [OF o]
    from assms o have "w1 = snd (write_lines p f vs w0)"
      by (cases "write_lines p f vs w0") (auto simp: write_list_file_def split: option.splits)
    then show ?thesis using write_lines_result(1) [OF ow(1), of f vs] ow(6) by simp
  qed
qed

lemma try_body_cases:
  fixes run compilation_name folder_path output_path video_files cleanup_source callback w
  defines "lp \<equiv> list_file_path folder_path compilation_name"
  defines "txt \<equiv> list_file_text folder_path video_files"
  defines "w' \<equiv> try_body run compilation_name folder_path output_path video_files
                   cleanup_source callback w"
  shows "(\<exists>w2 cmd err.
            w' = after_success lp folder_path output_path video_files cleanup_source callback w2
          \<and> events w2 = events w @ [Write lp txt, Ran cmd (Exited 0 err)]
          \<and> active_stitches w2 = active_stitches w
          \<and> undeletable w2 = undeletable w
          \<and> fst (write_list_file lp folder_path video_files w) = None)
       \<or> (\<exists>es. events w' = events w @ es \<and> failure_events lp txt es
          \<and> active_stitches w' = active_stitches w
          \<and> (\<forall>e. fst (write_list_file lp folder_path video_files w) = Some e \<longrightarrow>
                 es = [Log LOG_ERROR (''Error during video stitching: '' @ e)])
          \<and> (fst (write_list_file lp folder_path video_files w) = None \<longrightarrow>
                 (\<exists>es'. es = Write lp txt # es')))"
proof (cases "fst (write_list_file lp folder_path video_files w)")
  case (Some e)
  obtain w1 where wr: "write_list_file lp folder_path video_files w = (Some e, w1)"
    using Some by (cases "write_list_file lp folder_path video_files w") auto
  then have "w' = script_log LOG_ERROR (''Error during video stitching: '' @ e) w1"
    by (simp add: w'_def try_body_def lp_def txt_def)
  then show ?thesis
    using write_list_file_Some(1,2) [OF wr] Some
    by (simp add: script_log_def failure_events_def)
next
  case None
  obtain w1 where Return: "write_list_file lp folder_path video_files w = (None, w1)"
    using None by (cases "write_list_file lp folder_path video_files w") auto
  note ow = write_list_file_None [OF Return, folded txt_def]
  define cfg where "cfg = (case config_data w1 of None \<Rightarrow> \<lparr>Path = None, Args = None\<rparr> | Some c \<Rightarrow> c)"
  define ffmpeg_path where "ffmpeg_path = (case Path cfg of None \<Rightarrow> ''ffmpeg'' | Some p \<Rightarrow> p)"
  show ?thesis
  proof (cases "os_path_exists w1 ffmpeg_path")
    case False
    then have "w' = script_log LOG_ERROR
        (''FFmpeg path not found: '' @ ffmpeg_path @ ''. Please check your config.'') w1"
      using Return
      by (simp add: w'_def try_body_def lp_def [symmetric] txt_def [symmetric]
            cfg_def [symmetric] ffmpeg_path_def [symmetric] Let_def)
    then show ?thesis using ow None
      by (auto simp add: script_log_def failure_events_def)
  next
    case True
    define cmd where "cmd =
       [ffmpeg_path, ''-f'', ''concat'', ''-safe'', ''0'', ''-i'', lp, ''-c'', ''copy'']
       @ (case Args cfg of None \<Rightarrow> [] | Some a \<Rightarrow> a) @ [output_path]"
    obtain res fs where run: "run cmd (files w1) = (res, fs)" by (cases "run cmd (files w1)")
    define w2 where "w2 = w1\<lparr>files := fs, events := events w1 @ [Ran cmd res]\<rparr>"
    have w': "w' = (case res of
                 NotLaunched e \<Rightarrow> script_log LOG_ERROR (''Error during video stitching: '' @ e) w2
               | Undecodable rc e \<Rightarrow>
                   script_log LOG_ERROR (''Error during video stitching: '' @ e) w2
               | Exited rc err \<Rightarrow>
                   if rc \<noteq> 0 then script_log LOG_ERROR (''FFmpeg error: '' @ err) w2
                   else after_success lp folder_path output_path video_files
                          cleanup_source callback w2)"
      using Return True run
      by (simp add: w'_def try_body_def lp_def [symmetric] txt_def [symmetric]
            cfg_def [symmetric] ffmpeg_path_def [symmetric] Let_def cmd_def w2_def
           split: completed.split)
    have w2: "events w2 = events w @ [Write lp txt, Ran cmd res]"
      "active_stitches w2 = active_stitches w" "undeletable w2 = undeletable w"
      using ow by (simp_all add: w2_def)
    show ?thesis
    proof (cases res)
      case (NotLaunched e)
      then show ?thesis using w' w2 None
        by (auto simp add: script_log_def failure_events_def)
    next
      case (Undecodable rc e)
      then show ?thesis using w' w2 None
        by (auto simp add: script_log_def failure_events_def)
    next
      case (Exited rc err)
      show ?thesis
      proof (cases "rc = 0")
        case True
        then show ?thesis using w' w2 Exited None by auto
      next
        case False
        then show ?thesis using w' w2 Exited None
          by (auto simp add: script_log_def failure_events_def)
      qed
    qed
  qed
qed

lemma remove_list_file_events:
  "\<exists>ok. events (remove_list_file p w) = events w @ [Remove p ok]"
  by (cases "os_remove p w") (auto simp: remove_list_file_def dest: os_remove_Return)

lemma remove_list_file_registry:
  "active_stitches (remove_list_file p w) = active_stitches w"
  by (cases "os_remove p w") (auto simp: remove_list_file_def dest: os_remove_Return)

lemma call_callback_events:
  "events (call_callback callback output_path w) = events w @ callback_events callback output_path"
  by (simp add: call_callback_def callback_events_def script_log_def Let_def split: option.splits)

lemma call_callback_registry:
  "active_stitches (call_callback callback output_path w) = active_stitches w"
  by (simp add: call_callback_def script_log_def Let_def split: option.splits)

lemma after_success_events:
  "\<exists>es. events (after_success lp folder_path output_path video_files cleanup_source callback w)
           = events w @ es
      \<and> success_events lp folder_path output_path video_files cleanup_source callback es"
proof -
  define w1 where "w1 = script_log LOG_INFO (''Successfully stitched videos into '' @ output_path) w"
  define w2 where "w2 = (if cleanup_source \<and> \<not> startswith output_path ''_comp_''
                then cleanup_sources folder_path video_files w1 else w1)"
  define w3 where "w3 = remove_list_file lp w2"
  have res: "after_success lp folder_path output_path video_files cleanup_source callback w
         = call_callback callback output_path w3"
    by (simp add: after_success_def Let_def w1_def w2_def w3_def)
  have e1: "events w1 = events w @ [Log LOG_INFO (''Successfully stitched videos into '' @ output_path)]"
    by (simp add: w1_def script_log_def)
  obtain rs where rs: "length rs = length video_files"
    "events (cleanup_sources folder_path video_files w1) =
       events w1 @ concat (map (\<lambda>(v, r). deletion_events folder_path v r) (zip video_files rs))"
    using cleanup_sources_events by blast
  have e2: "events w2 = events w1 @
       (if cleanup_source \<and> \<not> startswith output_path ''_comp_''
        then concat (map (\<lambda>(v, r). deletion_events folder_path v r) (zip video_files rs))
        else [])"
    using rs(2) by (simp add: w2_def)
  obtain ok where e3: "events w3 = events w2 @ [Remove lp ok]"
    using remove_list_file_events w3_def by blast
  have "events (call_callback callback output_path w3) =
          events w @ ([Log LOG_INFO (''Successfully stitched videos into '' @ output_path)]
             @ (if cleanup_source \<and> \<not> startswith output_path ''_comp_''
                then concat (map (\<lambda>(v, r). deletion_events folder_path v r) (zip video_files rs))
                else [])
             @ [Remove lp ok]
             @ callback_events callback output_path)"
    by (simp only: call_callback_events e3 e2 e1 append_assoc)
  then show ?thesis
    unfolding res success_events_def using rs(1) by blast
qed

lemma after_success_registry:
  "active_stitches (after_success lp folder_path output_path video_files cleanup_source callback w)
     = active_stitches w"
  by (simp add: after_success_def Let_def call_callback_registry remove_list_file_registry
        cleanup_sources_registry script_log_def)

lemma try_body_events:
  "\<exists>es. events (try_body run compilation_name folder_path output_path video_files
                   cleanup_source callback w) = events w @ es
      \<and> worker_events compilation_name folder_path output_path video_files
           cleanup_source callback es"
proof -
  let ?lp = "list_file_path folder_path compilation_name"
  let ?txt = "list_file_text folder_path video_files"
  let ?w' = "try_body run compilation_name folder_path output_path video_files
               cleanup_source callback w"
  from try_body_cases [of run compilation_name folder_path output_path video_files
                          cleanup_source callback w]
  consider
    (ok) w2 cmd err where
      "?w' = after_success ?lp folder_path output_path video_files cleanup_source callback w2"
      "events w2 = events w @ [Write ?lp ?txt, Ran cmd (Exited 0 err)]"
  | (fail) es where "events ?w' = events w @ es" "failure_events ?lp ?txt es"
    by blast
  then show ?thesis
  proof cases
    case ok
    obtain es' where es': "events ?w' = events w2 @ es'"
      "success_events ?lp folder_path output_path video_files cleanup_source callback es'"
      using after_success_events [of ?lp folder_path output_path video_files
                cleanup_source callback w2] ok(1) by auto
    have "events ?w' = events w @ ([Write ?lp ?txt, Ran cmd (Exited 0 err)] @ es')"
      using es'(1) ok(2) by simp
    then show ?thesis
      unfolding worker_events_def Let_def using es'(2) by blast
  next
    case fail
    then show ?thesis unfolding worker_events_def Let_def by blast
  qed
qed

lemma try_body_registry:
  "active_stitches (try_body run compilation_name folder_path output_path video_files
                   cleanup_source callback w) = active_stitches w"
  using try_body_cases [of run compilation_name folder_path output_path video_files
                          cleanup_source callback w]
  by (auto simp: after_success_registry)

lemma process_videos_events:
  "\<exists>es. events (process_videos run (Thread compilation_name folder_path output_path video_files
                   cleanup_source callback) w) = events w @ es
      \<and> worker_events compilation_name folder_path output_path video_files
           cleanup_source callback es"
  by (simp add: process_videos_def unregister_stitch_events try_body_events)

lemma new_events_append: "events w' = events w @ es \<Longrightarrow> new_events w w' = es"
  by (simp add: new_events_def)

lemma callback_calls_simps:
  "callback_calls [] = []"
  "callback_calls (Called p # es) = p # callback_calls es"
  "callback_calls (Log lv m # es) = callback_calls es"
  "callback_calls (Write q t # es) = callback_calls es"
  "callback_calls (Remove q ok # es) = callback_calls es"
  "callback_calls (Ran cmd res # es) = callback_calls es"
  "callback_calls (es @ es') = callback_calls es @ callback_calls es'"
  by (simp_all add: callback_calls_def)

lemma callback_calls_deletions:
  "callback_calls (concat (map (\<lambda>(v, r). deletion_events folder_path v r) xs)) = []"
  by (induction xs) (auto simp: callback_calls_simps deletion_events_def split: option.splits)

lemma callback_calls_callback_events:
  "callback_calls (callback_events callback p) = (case callback of None \<Rightarrow> [] | Some cb \<Rightarrow> [p])"
  by (auto simp add: callback_calls_def callback_events_def split: option.splits)

lemma run_returned_zero_failure: "failure_events lp txt es \<Longrightarrow> \<not> run_returned_zero es"
  by (auto simp: failure_events_def run_returned_zero_def)

lemma callback_calls_failure: "failure_events lp txt es \<Longrightarrow> callback_calls es = []"
  by (auto simp: failure_events_def callback_calls_def)

lemma callback_calls_success:
  "success_events lp folder_path output_path video_files cleanup_source callback es \<Longrightarrow>
   callback_calls es = (case callback of None \<Rightarrow> [] | Some cb \<Rightarrow> [output_path])"
  unfolding success_events_def
  by (auto simp: callback_calls_simps callback_calls_deletions callback_calls_callback_events)

subsection \<open>Removals\<close>

lemma remove_calls_simps:
  "remove_calls [] = []"
  "remove_calls (Remove q ok # es) = q # remove_calls es"
  "remove_calls (Log lv m # es) = remove_calls es"
  "remove_calls (Write q t # es) = remove_calls es"
  "remove_calls (Called p # es) = remove_calls es"
  "remove_calls (Ran cmd res # es) = remove_calls es"
  "remove_calls (es @ es') = remove_calls es @ remove_calls es'"
  by (simp_all add: remove_calls_def)

lemma remove_calls_deletions:
  "length rs = length vs \<Longrightarrow>
   remove_calls (concat (map (\<lambda>(v, r). deletion_events folder_path v r) (zip vs rs)))
     = map (os_path_join folder_path) vs"
  by (induction vs rs rule: list_induct2')
     (auto simp: remove_calls_simps deletion_events_def split: option.splits)

lemma remove_calls_callback_events: "remove_calls (callback_events callback p) = []"
  by (auto simp: remove_calls_simps callback_events_def split: option.splits)

lemma remove_calls_failure: "failure_events lp txt es \<Longrightarrow> remove_calls es = []"
  by (auto simp: failure_events_def remove_calls_simps)

lemma remove_calls_success:
  "success_events lp folder_path output_path video_files cleanup_source callback es \<Longrightarrow>
   remove_calls es =
     (if cleanup_source \<and> \<not> startswith output_path ''_comp_''
      then map (os_path_join folder_path) video_files else []) @ [lp]"
  unfolding success_events_def
  by (auto simp: remove_calls_simps remove_calls_deletions remove_calls_callback_events)

lemma run_returned_zero_success:
  "run_returned_zero (Write lp txt # Ran cmd (Exited 0 err) # es')"
  by (simp add: run_returned_zero_def)

lemma still_there_unlink:
  "still_there (w\<lparr>files := unlink q (files w)\<rparr>) p \<Longrightarrow> still_there w p \<and> p \<noteq> q"
  by (auto simp: still_there_def unlink_def split: option.splits node.splits if_splits)

lemma still_there_events [simp]:
  "still_there (w\<lparr>events := es\<rparr>) p = still_there w p"
  by (simp add: still_there_def split: option.splits node.splits)

lemma still_there_script_log [simp]:
  "still_there (script_log lv m w) p = still_there w p"
  by (simp add: still_there_def script_log_def split: option.splits node.splits)

lemma os_remove_Raise: "os_remove p w = Raise e \<Longrightarrow> \<not> still_there w p"
  by (auto simp: os_remove_def still_there_def split: option.splits node.splits if_splits)

lemma cleanup_sources_mono:
  "still_there (cleanup_sources folder_path vs w) p \<Longrightarrow> still_there w p"
proof (induction vs arbitrary: w)
  case Nil
  then show ?case by simp
next
  case (Cons v vs)
  show ?case
  proof (cases "os_remove (os_path_join folder_path v) w")
    case (Return w')
    with Cons.prems have "still_there w' p"
      by (auto dest!: Cons.IH)
    then show ?thesis
      using os_remove_Return [OF Return] still_there_unlink by blast
  next
    case (Raise e)
    with Cons.prems show ?thesis
      by (auto dest!: Cons.IH)
  qed
qed

lemma cleanup_sources_gone:
  "v \<in> set vs \<Longrightarrow> \<not> still_there (cleanup_sources folder_path vs w) (os_path_join folder_path v)"
proof (induction vs arbitrary: w)
  case Nil
  then show ?case by simp
next
  case (Cons u us)
  let ?p = "os_path_join folder_path v"
  show ?case
  proof (cases "os_remove (os_path_join folder_path u) w")
    case (Return w')
    show ?thesis
    proof (cases "v = u")
      case True
      have "\<not> still_there w' ?p"
        using os_remove_Return [OF Return] still_there_unlink [where w = w and p = "?p" and q = "?p"] True by auto
      then show ?thesis
        using Return True by (auto dest!: cleanup_sources_mono)
    next
      case False
      then have "v \<in> set us" using Cons.prems by simp
      then show ?thesis using Return by (simp add: Cons.IH)
    qed
  next
    case (Raise e)
    show ?thesis
    proof (cases "v = u")
      case True
      have "\<not> still_there w ?p" using os_remove_Raise [OF Raise] True by simp
      then show ?thesis
        using Raise True by (auto dest!: cleanup_sources_mono)
    next
      case False
      then have "v \<in> set us" using Cons.prems by simp
      then show ?thesis using Raise by (simp add: Cons.IH)
    qed
  qed
qed

lemma remove_list_file_mono:
  "still_there (remove_list_file q w) p \<Longrightarrow> still_there w p"
  by (cases "os_remove q w")
     (auto simp: remove_list_file_def dest!: os_remove_Return dest: still_there_unlink)

lemma call_callback_still_there [simp]:
  "still_there (call_callback callback output_path w) p = still_there w p"
  by (simp add: call_callback_def Let_def split: option.splits)

lemma after_success_gone:
  assumes "cleanup_source" "\<not> startswith output_path ''_comp_''" "v \<in> set video_files"
  shows "\<not> still_there (after_success lp folder_path output_path video_files
                           cleanup_source callback w) (os_path_join folder_path v)"
  using assms
  by (auto simp: after_success_def Let_def dest!: remove_list_file_mono
           dest: cleanup_sources_gone [THEN notE, rotated])

lemma unregister_stitch_still_there [simp]:
  "still_there (unregister_stitch n w) p = still_there w p"
  by (simp add: still_there_def unregister_stitch_def split: option.splits node.splits)

text \<open>When the trace shows a run that returned with zero, the worker went through the
  steps after success.\<close>

lemma process_videos_success:
  assumes "run_returned_zero (new_events w (process_videos run (Thread compilation_name folder_path
             output_path video_files cleanup_source callback) w))"
  shows "\<exists>w2. process_videos run (Thread compilation_name folder_path
             output_path video_files cleanup_source callback) w
           = unregister_stitch compilation_name
               (after_success (list_file_path folder_path compilation_name) folder_path
                  output_path video_files cleanup_source callback w2)"
proof -
  let ?tb = "try_body run compilation_name folder_path output_path video_files
               cleanup_source callback w"
  from try_body_cases [of run compilation_name folder_path output_path video_files
                          cleanup_source callback w]
  show ?thesis
  proof (elim disjE exE conjE)
    fix w2 cmd err
    assume "?tb = after_success (list_file_path folder_path compilation_name) folder_path
                    output_path video_files cleanup_source callback w2"
    then show ?thesis by (auto simp: process_videos_def)
  next
    fix es
    assume e: "events ?tb = events w @ es"
      and f: "failure_events (list_file_path folder_path compilation_name)
                (list_file_text folder_path video_files) es"
    have "new_events w (process_videos run (Thread compilation_name folder_path
             output_path video_files cleanup_source callback) w) = es"
      by (rule new_events_append) (simp add: process_videos_def unregister_stitch_events e)
    with assms run_returned_zero_failure [OF f] show ?thesis by simp
  qed
qed

lemma locked_new_events:
  "new_events locked_world (process_videos demo_run demo_thread locked_world)
     = events (process_videos demo_run demo_thread locked_world)"
  by (rule new_events_append) (simp add: locked_world_def demo_world_def)

section \<open>Ordering and submission\<close>

lemma keys_of_Return:
  "keys_of rs = Return ks \<Longrightarrow> rs = map Return ks"
proof (induction rs arbitrary: ks)
  case Nil
  then show ?case by simp
next
  case (Cons r rs)
  then show ?case
    by (cases r) (auto split: result.splits)
qed

lemma keys_of_map_Return: "keys_of (map Return ks) = Return ks"
  by (induction ks) auto

lemma insort_key_decorated:
  "insort_key fst (f x, x) (map (\<lambda>x. (f x, x)) ys) = map (\<lambda>x. (f x, x)) (insort_key f x ys)"
  by (induction ys) auto

lemma sort_key_decorated:
  "sort_key fst (map (\<lambda>x. (f x, x)) xs) = map (\<lambda>x. (f x, x)) (sort_key f xs)"
  by (induction xs) (auto simp: insort_key_decorated)

lemma zip_map_self: "zip (map f xs) xs = map (\<lambda>x. (f x, x)) xs"
  by (induction xs) auto

text \<open>When every key is computed, the result is the stable sort by that key.\<close>

lemma sorted_key_total:
  assumes "\<forall>x\<in>set xs. key x = Return (k x)"
  shows "sorted_key key xs = Return (sort_key k xs)"
proof -
  have "map key xs = map Return (map k xs)" using assms by simp
  then have "keys_of (map key xs) = Return (map k xs)"
    by (simp only: keys_of_map_Return)
  then show ?thesis
    by (simp add: sorted_key_def zip_map_self sort_key_decorated comp_def)
qed

lemma sorted_key_Return:
  assumes "sorted_key key xs = Return ys"
  shows "\<exists>k. (\<forall>x\<in>set xs. key x = Return (k x)) \<and> ys = sort_key k xs"
proof -
  from assms obtain ks where ks: "keys_of (map key xs) = Return ks"
    by (auto simp: sorted_key_def split: result.splits)
  then have m: "map key xs = map Return ks" by (rule keys_of_Return)
  define k where "k x = (case key x of Return v \<Rightarrow> v | Raise e \<Rightarrow> undefined)" for x
  have tot: "\<forall>x\<in>set xs. key x = Return (k x)"
  proof
    fix x assume "x \<in> set xs"
    then have "key x \<in> set (map key xs)" by simp
    then have "key x \<in> set (map Return ks)" using m by simp
    then show "key x = Return (k x)" by (auto simp: k_def)
  qed
  from sorted_key_total [OF tot] assms have "ys = sort_key k xs" by simp
  with tot show ?thesis by blast
qed

lemma sorted_key_mset: "sorted_key key xs = Return ys \<Longrightarrow> mset ys = mset xs"
  using sorted_key_Return [of key xs ys] by auto

lemma apply_sorting_mset:
  "apply_sorting w folder_path sort_lambda video_files = Return ordered \<Longrightarrow>
   mset ordered = mset video_files"
  by (auto simp: apply_sorting_def dest: sorted_key_mset split: option.splits)

lemma apply_sorting_files:
  "files w1 = files w \<Longrightarrow>
   apply_sorting w1 folder_path sort_lambda video_files
     = apply_sorting w folder_path sort_lambda video_files"
  by (simp add: apply_sorting_def os_path_getmtime_def split: option.splits)

lemma register_stitch_files: "files (snd (register_stitch n f p w)) = files w"
  by (simp add: register_stitch_def)

text \<open>What an accepted submission is.\<close>

lemma stitch_videos_async_thread:
  assumes "stitch_videos_async compilation_name folder_path output_path sort_lambda
             cleanup_source callback w = (r, Some th, w')"
  shows "\<exists>video_files ordered.
           list_videos w folder_path = Return video_files \<and> video_files \<noteq> [] \<and>
           apply_sorting w folder_path sort_lambda video_files = Return ordered \<and>
           th = Thread compilation_name folder_path output_path ordered cleanup_source callback \<and>
           r = Return (Some output_path) \<and>
           \<not> is_stitching w compilation_name \<and>
           os_path_exists w folder_path \<and> os_path_isdir w folder_path"
proof -
  from assms have ns: "\<not> is_stitching w compilation_name"
    and ok: "os_path_exists w folder_path" "os_path_isdir w folder_path"
    by (auto simp: stitch_videos_async_def split: if_splits)
  from assms ns ok obtain video_files where vf: "list_videos w folder_path = Return video_files"
    "video_files \<noteq> []"
    and ras: "register_and_start compilation_name folder_path output_path sort_lambda
                cleanup_source callback video_files w = (r, Some th, w')"
    by (auto simp: stitch_videos_async_def split: result.splits if_splits)
  have reg: "register_stitch compilation_name folder_path output_path w =
          (True, snd (register_stitch compilation_name folder_path output_path w))"
    using ns by (simp add: register_stitch_def is_stitching_def)
  let ?w1 = "snd (register_stitch compilation_name folder_path output_path w)"
  from ras reg obtain ordered where
    o: "apply_sorting ?w1 folder_path sort_lambda video_files = Return ordered"
    and th: "th = Thread compilation_name folder_path output_path ordered cleanup_source callback"
    and r: "r = Return (Some output_path)"
    unfolding register_and_start_def
    by (cases "apply_sorting ?w1 folder_path sort_lambda video_files") (auto split: prod.splits)
  have "apply_sorting w folder_path sort_lambda video_files = Return ordered"
    using o apply_sorting_files [OF register_stitch_files] by metis
  with vf th r ns ok show ?thesis by blast
qed




text \<open>A submission that has passed the three checks goes on to registration, ordering
  and the start of the thread.\<close>

lemma stitch_videos_async_checked:
  assumes "\<not> is_stitching w n" "os_path_exists w f" "os_path_isdir w f"
    "list_videos w f = Return vs" "vs \<noteq> []"
  shows "stitch_videos_async n f p sl c cb w =
           (case apply_sorting w f sl vs of
              Raise e \<Rightarrow> (Raise e, None, snd (register_stitch n f p w))
            | Return ordered \<Rightarrow>
                (Return (Some p), Some (Thread n f p ordered c cb),
                 log_order n ordered (snd (register_stitch n f p w))))"
proof -
  have reg: "register_stitch n f p w = (True, snd (register_stitch n f p w))"
    using assms(1) by (simp add: register_stitch_def is_stitching_def)
  have "stitch_videos_async n f p sl c cb w = register_and_start n f p sl c cb vs w"
    using assms by (simp add: stitch_videos_async_def)
  also have "\<dots> = (case apply_sorting (snd (register_stitch n f p w)) f sl vs of
              Raise e \<Rightarrow> (Raise e, None, snd (register_stitch n f p w))
            | Return ordered \<Rightarrow>
                (Return (Some p), Some (Thread n f p ordered c cb),
                 log_order n ordered (snd (register_stitch n f p w))))"
    unfolding register_and_start_def by (subst reg) simp
  finally show ?thesis
    by (simp add: apply_sorting_files [OF register_stitch_files])
qed

lemma isdir_list_videos:
  "os_path_isdir w f \<Longrightarrow> \<exists>vs. list_videos w f = Return vs"
  by (auto simp: os_path_isdir_def list_videos_def os_listdir_def split: option.splits node.splits)

lemma stitch_videos_async_accepts:
  "(fst (stitch_videos_async n f p sl c cb w) = Return (Some q)) =
     (q = p \<and> \<not> is_stitching w n \<and> os_path_exists w f \<and> os_path_isdir w f \<and>
      (\<exists>vs ordered. list_videos w f = Return vs \<and> vs \<noteq> [] \<and>
          apply_sorting w f sl vs = Return ordered))"
proof (cases "\<not> is_stitching w n \<and> os_path_exists w f \<and> os_path_isdir w f")
  case False
  then show ?thesis by (auto simp: stitch_videos_async_def)
next
  case True
  then obtain vs where vs: "list_videos w f = Return vs" using isdir_list_videos by blast
  show ?thesis
  proof (cases "vs = []")
    case True
    then show ?thesis using vs \<open>\<not> is_stitching w n \<and> os_path_exists w f \<and> os_path_isdir w f\<close>
      by (auto simp: stitch_videos_async_def)
  next
    case False
    from stitch_videos_async_checked [OF _ _ _ vs False, of n p sl c cb] True
    show ?thesis using vs False
      by (cases "apply_sorting w f sl vs") auto
  qed
qed

lemma stitch_videos_async_rejects:
  assumes "fst (stitch_videos_async n f p sl c cb w) = Return None"
  shows "active_stitches (snd (snd (stitch_videos_async n f p sl c cb w))) = active_stitches w"
    and "fst (snd (stitch_videos_async n f p sl c cb w)) = None"
proof -
  have "active_stitches (snd (snd (stitch_videos_async n f p sl c cb w))) = active_stitches w
      \<and> fst (snd (stitch_videos_async n f p sl c cb w)) = None"
  proof (cases "\<not> is_stitching w n \<and> os_path_exists w f \<and> os_path_isdir w f")
    case False
    then show ?thesis by (auto simp: stitch_videos_async_def script_log_def)
  next
    case True
    then obtain vs where vs: "list_videos w f = Return vs" using isdir_list_videos by blast
    show ?thesis
    proof (cases "vs = []")
      case True
      then show ?thesis using vs \<open>\<not> is_stitching w n \<and> os_path_exists w f \<and> os_path_isdir w f\<close>
        by (auto simp: stitch_videos_async_def script_log_def)
    next
      case False
      from stitch_videos_async_checked [OF _ _ _ vs False, of n p sl c cb] True assms
      show ?thesis
        by (cases "apply_sorting w f sl vs") auto
    qed
  qed
  then show "active_stitches (snd (snd (stitch_videos_async n f p sl c cb w))) = active_stitches w"
    and "fst (snd (stitch_videos_async n f p sl c cb w)) = None" by simp_all
qed

section \<open>The list file\<close>

lemma write_calls_simps:
  "write_calls [] = []"
  "write_calls (Write q t # es) = (q, t) # write_calls es"
  "write_calls (Log lv m # es) = write_calls es"
  "write_calls (Remove q ok # es) = write_calls es"
  "write_calls (Called p # es) = write_calls es"
  "write_calls (Ran cmd res # es) = write_calls es"
  "write_calls (es @ es') = write_calls es @ write_calls es'"
  by (simp_all add: write_calls_def)

lemma tool_runs_simps:
  "tool_runs [] = []"
  "tool_runs (Ran cmd res # es) = cmd # tool_runs es"
  "tool_runs (Log lv m # es) = tool_runs es"
  "tool_runs (Remove q ok # es) = tool_runs es"
  "tool_runs (Called p # es) = tool_runs es"
  "tool_runs (Write q t # es) = tool_runs es"
  "tool_runs (es @ es') = tool_runs es @ tool_runs es'"
  by (simp_all add: tool_runs_def)

lemma write_calls_deletions:
  "write_calls (concat (map (\<lambda>(v, r). deletion_events folder_path v r) xs)) = []"
  by (induction xs) (auto simp: write_calls_simps deletion_events_def split: option.splits)

lemma tool_runs_deletions:
  "tool_runs (concat (map (\<lambda>(v, r). deletion_events folder_path v r) xs)) = []"
  by (induction xs) (auto simp: tool_runs_simps deletion_events_def split: option.splits)

lemma write_calls_success:
  "success_events lp folder_path output_path video_files cleanup_source callback es \<Longrightarrow>
   write_calls es = [] \<and> tool_runs es = []"
  unfolding success_events_def
  by (auto simp: write_calls_simps write_calls_deletions tool_runs_simps tool_runs_deletions
        callback_events_def split: option.splits)

lemma write_calls_worker:
  assumes "worker_events n f p vs c cb es"
  shows "(write_calls es = [] \<and> tool_runs es = [])
       \<or> write_calls es = [(list_file_path f n, list_file_text f vs)]"
  using assms unfolding worker_events_def Let_def failure_events_def
  by (auto simp: write_calls_simps tool_runs_simps dest: write_calls_success)

lemma text_lines_append:
  "CHR 0x0A \<notin> set l \<Longrightarrow> text_lines (l @ CHR 0x0A # rest) = l # text_lines rest"
  by (induction l) (auto simp: text_lines_def)

lemma text_lines_list_file_text:
  "\<forall>v\<in>set vs. CHR 0x0A \<notin> set (os_path_join f v) \<Longrightarrow>
   text_lines (list_file_text f vs) = map (\<lambda>v. ''file '' @ quoted (os_path_join f v)) vs"
proof (induction vs)
  case Nil
  then show ?case by (simp add: list_file_text_def text_lines_def)
next
  case (Cons v vs)
  have "CHR 0x0A \<notin> set (''file '' @ quoted (os_path_join f v))"
    using Cons.prems by (simp add: quoted_def)
  from text_lines_append [OF this, of "list_file_text f vs"]
  have "text_lines (list_file_text f (v # vs))
          = (''file '' @ quoted (os_path_join f v)) # text_lines (list_file_text f vs)"
    by (simp add: list_file_text_def list_line_def)
  then show ?case using Cons by simp
qed

lemma os_path_isabs_join:
  "os_path_isabs (os_path_join a b) = (os_path_isabs a \<or> os_path_isabs b)"
  by (cases a; cases b) (auto simp: os_path_isabs_def os_path_join_def startswith_def)

lemma list_file_path_inj:
  "list_file_path f n = list_file_path f n' \<Longrightarrow> n = n'"
  by (auto simp: list_file_path_def os_path_join_def startswith_def split: if_splits)

lemma os_path_basename_join:
  assumes b: "CHR ''/'' \<notin> set b"
  shows "os_path_basename (os_path_join a b) = b"
proof -
  have nb: "\<not> startswith b ''/''"
    using b by (cases b) (auto simp: startswith_def)
  have t0: "takeWhile (\<lambda>c. c \<noteq> CHR ''/'') (rev b) = rev b"
    using b by (auto simp: takeWhile_eq_all_conv)
  have t1: "takeWhile (\<lambda>c. c \<noteq> CHR ''/'') (rev b @ CHR ''/'' # ys) = rev b" for ys
    by (subst takeWhile_append2) (use b in auto)
  show ?thesis
  proof (cases "a = []")
    case True
    then show ?thesis using nb by (simp add: os_path_join_def os_path_basename_def t0)
  next
    case False
    show ?thesis
    proof (cases "endswith a ''/''")
      case True
      then obtain a' where "a = a' @ ''/''" by (auto simp: endswith_def suffix_def)
      then show ?thesis using nb True
        by (simp add: os_path_join_def os_path_basename_def t1)
    next
      case e: False
      show ?thesis using nb e False
        by (simp add: os_path_join_def os_path_basename_def t1)
    qed
  qed
qed

lemma os_path_basename_list_file:
  "CHR ''/'' \<notin> set n \<Longrightarrow>
   os_path_basename (list_file_path f n) = ''file_list_'' @ n @ ''.txt''"
  unfolding list_file_path_def by (rule os_path_basename_join) simp

lemma os_path_isabs_join_entry:
  "\<not> os_path_isabs b \<Longrightarrow> os_path_isabs (os_path_join a b) = os_path_isabs a"
  by (simp add: os_path_isabs_join)

text \<open>What the worker leaves in the trace after the block that writes the list file.\<close>

lemma process_videos_write:
  fixes run n f out vs c cb and w :: world
  defines "w' \<equiv> process_videos run (Thread n f out vs c cb) w"
  shows "fst (write_list_file (list_file_path f n) f vs w) = Some e \<Longrightarrow>
           new_events w w' = [Log LOG_ERROR (''Error during video stitching: '' @ e)]"
    and "fst (write_list_file (list_file_path f n) f vs w) = None \<Longrightarrow>
           write_calls (new_events w w') = [(list_file_path f n, list_file_text f vs)]"
proof -
  let ?tb = "try_body run n f out vs c cb w"
  have ev: "events w' = events ?tb"
    by (simp add: w'_def process_videos_def unregister_stitch_events)
  obtain es where es: "events w' = events w @ es" "worker_events n f out vs c cb es"
    unfolding w'_def using process_videos_events by blast
  have ne: "new_events w w' = es" using es(1) by (rule new_events_append)
  note cases = try_body_cases [of run n f out vs c cb w]
  show "new_events w w' = [Log LOG_ERROR (''Error during video stitching: '' @ e)]"
    if "fst (write_list_file (list_file_path f n) f vs w) = Some e"
    using cases that es(1) unfolding ne ev by auto
  show "write_calls (new_events w w') = [(list_file_path f n, list_file_text f vs)]"
    if h: "fst (write_list_file (list_file_path f n) f vs w) = None"
  proof -
    have "\<exists>es'. es = Write (list_file_path f n) (list_file_text f vs) # es'"
      using cases h es(1) unfolding ev
    proof (elim disjE exE conjE)
      fix w2 cmd err
      assume a: "?tb = after_success (list_file_path f n) f out vs c cb w2"
        and b: "events w2 = events w @ [Write (list_file_path f n) (list_file_text f vs),
                  Ran cmd (Exited 0 err)]"
      from after_success_events [of "list_file_path f n" f out vs c cb w2] a
      obtain es2 where "events ?tb = events w2 @ es2" by auto
      with b es(1) ev
      have "events w @ es = events w @ (Write (list_file_path f n) (list_file_text f vs)
                                          # Ran cmd (Exited 0 err) # es2)"
        by simp
      then have "es = Write (list_file_path f n) (list_file_text f vs)
                        # Ran cmd (Exited 0 err) # es2"
        by (simp only: same_append_eq)
      then show ?thesis by blast
    next
      fix es0
      assume "events ?tb = events w @ es0"
        "fst (write_list_file (list_file_path f n) f vs w) = None \<longrightarrow>
           (\<exists>es'. es0 = Write (list_file_path f n) (list_file_text f vs) # es')"
      with h es(1) ev show ?thesis by auto
    qed
    then have "write_calls es \<noteq> []" by (auto simp: write_calls_simps)
    with write_calls_worker [OF es(2)] show ?thesis unfolding ne by blast
  qed
qed


lemma run_returned_zero_exit_zero: "run_returned_zero es \<Longrightarrow> exit_zero es"
  by (induction es)
     (auto simp: run_returned_zero_def exit_zero_def split: event.splits completed.splits)

subsection \<open>Callback calls of a worker\<close>

lemma process_videos_callback_calls:
  "callback_calls
     (new_events w (process_videos run (Thread compilation_name folder_path output_path
                      video_files cleanup_source callback) w)) =
   (if callback \<noteq> None \<and>
       run_returned_zero (new_events w (process_videos run (Thread compilation_name folder_path output_path
                      video_files cleanup_source callback) w))
    then [output_path] else [])"
proof -
  define w' where "w' = process_videos run (Thread compilation_name folder_path output_path
                      video_files cleanup_source callback) w"
  obtain es where es: "events w' = events w @ es"
     "worker_events compilation_name folder_path output_path video_files cleanup_source callback es"
    unfolding w'_def using process_videos_events by blast
  have ne: "new_events w w' = es" using es(1) by (rule new_events_append)
  from es(2) have "callback_calls es =
           (if callback \<noteq> None \<and> run_returned_zero es then [output_path] else [])"
    unfolding worker_events_def Let_def
  proof (elim disjE exE conjE)
    assume "failure_events (list_file_path folder_path compilation_name)
              (list_file_text folder_path video_files) es"
    then show ?thesis
      by (simp add: run_returned_zero_failure callback_calls_failure)
  next
    fix cmd err es'
    assume a: "es = [Write (list_file_path folder_path compilation_name)
                   (list_file_text folder_path video_files), Ran cmd (Exited 0 err)] @ es'"
      and b: "success_events (list_file_path folder_path compilation_name) folder_path output_path
                video_files cleanup_source callback es'"
    have "run_returned_zero es" by (simp add: a run_returned_zero_def)
    moreover have "callback_calls es = callback_calls es'"
      by (simp add: a callback_calls_simps)
    ultimately show ?thesis
      using callback_calls_success [OF b] by (auto split: option.splits)
  qed
  then show ?thesis
    unfolding w'_def [symmetric] ne .
qed

lemma failing_not_run_returned_zero:
  "\<not> run_returned_zero (new_events demo_world (process_videos failing_run demo_thread demo_world))"
  by (simp add: eval_defs failing_run_def run_returned_zero_def)

section \<open>The claims\<close>

text \<open>
  C1. At most one job per compilation name is in the registry. The registry is a map, so
  a name has at most one job by construction; what the code adds is that
  \<^verbatim>\<open>_register_stitch\<close> never replaces the job of a running compilation. The call holds the
  lock for its whole body, so two racing calls run one after the other in some order.
  If the name is registered, the call returns \<^verbatim>\<open>False\<close> and changes nothing; if it is
  free, the call returns \<^verbatim>\<open>True\<close> and stores a job with status \<^verbatim>\<open>started\<close>. Of two
  calls for one name with no unregistration between them, whatever their other arguments
  and whichever comes first, the second returns \<^verbatim>\<open>False\<close> and changes nothing, so
  exactly one is accepted when the name was free. The same holds for two submissions
  that have both passed validation: the one that reaches the registration while the
  other's job is registered is rejected without any change.
\<close>

theorem register_stitch_exclusive:
  "(is_stitching w n \<longrightarrow> register_stitch n f p w = (False, w))
 \<and> (\<not> is_stitching w n \<longrightarrow>
      register_stitch n f p w =
        (True, w\<lparr>active_stitches := (active_stitches w)(n \<mapsto>
                   \<lparr>job_start_time = clock w, job_folder_path = f,
                    job_output_path = p, job_status = ''started''\<rparr>)\<rparr>))
 \<and> register_stitch n f2 p2 (snd (register_stitch n f p w))
      = (False, snd (register_stitch n f p w))
 \<and> (\<not> is_stitching w n \<longrightarrow>
      fst (register_stitch n f p w) \<and>
      \<not> fst (register_stitch n f2 p2 (snd (register_stitch n f p w))))
 \<and> register_and_start n f2 p2 sl2 c2 cb2 vs2 (snd (snd (register_and_start n f p sl c cb vs w)))
      = (Return None, None, snd (snd (register_and_start n f p sl c cb vs w)))"
  using register_and_start_lost [OF register_and_start_registered]
  by (simp add: register_stitch_def is_stitching_def)

theorem register_stitch_exclusive_witness:
  "\<not> is_stitching demo_world ''demo''
 \<and> fst (register_stitch ''demo'' ''/v'' ''/out/a.mp4'' demo_world)
 \<and> \<not> fst (register_stitch ''demo'' ''/w'' ''/out/b.mp4''
            (snd (register_stitch ''demo'' ''/v'' ''/out/a.mp4'' demo_world)))"
proof -
  have free: "\<not> is_stitching demo_world ''demo''"
    by (simp add: is_stitching_def demo_world_def)
  from register_stitch_exclusive [of demo_world "''demo''" "''/v''" "''/out/a.mp4''"
         "''/w''" "''/out/b.mp4''"] free
  show ?thesis by blast
qed

text \<open>
  Claim C1 as stated, exactly one of two concurrent submissions accepted under every
  interleaving, fails when the worker of the first ends in between: both submissions pass
  the checks while the name is free, the first registers and starts its worker, the
  worker finds no FFmpeg and unregisters the job, and then the second registers. Both
  return the output path; the two jobs are never in the registry together.
\<close>

theorem both_accepted_counterexample:
  "\<not> is_stitching no_tool_world ''demo''
 \<and> os_path_exists no_tool_world ''/v'' \<and> os_path_isdir no_tool_world ''/v''
 \<and> list_videos no_tool_world ''/v'' = Return [''b.mp4'', ''a.mp4'']
 \<and> fst first_accepted = Return (Some ''/out/demo.mp4'')
 \<and> fst (snd first_accepted) = Some plain_thread
 \<and> fst (register_and_start ''demo'' ''/v'' ''/out/demo.mp4''
           (None :: (string \<Rightarrow> real result) option) True None [''b.mp4'', ''a.mp4'']
           (process_videos demo_run plain_thread (snd (snd first_accepted))))
      = Return (Some ''/out/demo.mp4'')"
  by (simp add: first_accepted_def no_tool_world_def demo_world_def plain_thread_def submit_defs
        eval_defs)

text \<open>
  C2. Whatever happens in the worker (the list file cannot be written, the FFmpeg path
  does not exist, FFmpeg cannot be launched or exits non-zero, a deletion fails, the
  callback raises, or all goes well), the \<^verbatim>\<open>finally\<close> clause unregisters the job:
  afterwards \<^verbatim>\<open>is_stitching\<close> is false for its name, and the registry is the one the
  worker found without that name.
\<close>

theorem worker_always_unregisters:
  "\<not> is_stitching (process_videos run (Thread compilation_name folder_path output_path
                      video_files cleanup_source callback) w) compilation_name
 \<and> active_stitches (process_videos run (Thread compilation_name folder_path output_path
                      video_files cleanup_source callback) w)
     = (active_stitches w)(compilation_name := None)"
  by (simp add: process_videos_def is_stitching_def unregister_stitch_registry try_body_registry)

text \<open>
  C3. The callback is called exactly once, with the output path of the thread, when a
  callback was supplied and \<^verbatim>\<open>subprocess.run\<close> returned with return code zero (FFmpeg
  exited with status zero and its captured output was read as text); in every other case
  (no callback, list file not written, FFmpeg path missing, FFmpeg not launched, output
  that cannot be decoded, non-zero exit) it is not called at all. The thread of an
  accepted submission carries the output path and the callback of the submission, so
  the path is the one passed at submission. A run that returned with zero is a run of a
  program that exited with zero.
\<close>

theorem callback_iff_run_returned_zero:
  "callback_calls
     (new_events w (process_videos run (Thread compilation_name folder_path output_path
                      video_files cleanup_source callback) w)) =
   (if callback \<noteq> None \<and>
       run_returned_zero (new_events w (process_videos run (Thread compilation_name folder_path output_path
                      video_files cleanup_source callback) w))
    then [output_path] else [])
 \<and> (stitch_videos_async compilation_name folder_path output_path sort_lambda
       cleanup_source callback w0 = (r, Some th, w1) \<longrightarrow>
     callback_calls (new_events w (process_videos run th w)) =
       (if callback \<noteq> None \<and> run_returned_zero (new_events w (process_videos run th w))
        then [output_path] else []))
 \<and> (run_returned_zero
       (new_events w (process_videos run (Thread compilation_name folder_path output_path
                      video_files cleanup_source callback) w)) \<longrightarrow>
     exit_zero
       (new_events w (process_videos run (Thread compilation_name folder_path output_path
                      video_files cleanup_source callback) w)))"
proof (intro conjI impI)
  show "callback_calls
     (new_events w (process_videos run (Thread compilation_name folder_path output_path
                      video_files cleanup_source callback) w)) =
   (if callback \<noteq> None \<and>
       run_returned_zero (new_events w (process_videos run (Thread compilation_name folder_path output_path
                      video_files cleanup_source callback) w))
    then [output_path] else [])"
    by (rule process_videos_callback_calls)
next
  assume "stitch_videos_async compilation_name folder_path output_path sort_lambda
       cleanup_source callback w0 = (r, Some th, w1)"
  from stitch_videos_async_thread [OF this] obtain ordered where
    "th = Thread compilation_name folder_path output_path ordered cleanup_source callback"
    by blast
  then show "callback_calls (new_events w (process_videos run th w)) =
       (if callback \<noteq> None \<and> run_returned_zero (new_events w (process_videos run th w))
        then [output_path] else [])"
    by (simp only: process_videos_callback_calls)
next
  assume "run_returned_zero
       (new_events w (process_videos run (Thread compilation_name folder_path output_path
                      video_files cleanup_source callback) w))"
  then show "exit_zero
       (new_events w (process_videos run (Thread compilation_name folder_path output_path
                      video_files cleanup_source callback) w))"
    by (rule run_returned_zero_exit_zero)
qed

theorem callback_iff_run_returned_zero_witness:
  "callback_calls (new_events demo_world (process_videos demo_run demo_thread demo_world))
     = [''/out/demo.mp4'']
 \<and> callback_calls (new_events demo_world (process_videos failing_run demo_thread demo_world))
     = []"
proof -
  note t = callback_iff_run_returned_zero [of demo_world _ "''demo''" "''/v''" "''/out/demo.mp4''"
          "[''a.mp4'', ''b.mp4'']" True "Some (\<lambda>p. None)", folded demo_thread_def,
          THEN conjunct1]
  from t [of demo_run] demo_run_returned_zero
  have 1: "callback_calls (new_events demo_world (process_videos demo_run demo_thread demo_world))
     = [''/out/demo.mp4'']" by simp
  from t [of failing_run] failing_not_run_returned_zero
  have 2: "callback_calls (new_events demo_world (process_videos failing_run demo_thread demo_world))
     = []" by simp
  from 1 2 show ?thesis by simp
qed

text \<open>
  Claim C3 as stated, the callback called whenever FFmpeg exits with status zero, fails
  when FFmpeg exits with status zero after writing bytes to its standard error that are
  not text: \<^verbatim>\<open>subprocess.run\<close> raises, the worker logs the error and the callback is not
  called.
\<close>

theorem callback_undecodable_counterexample:
  "exit_zero (new_events demo_world (process_videos garbled_run demo_thread demo_world))
 \<and> demo_thread = Thread ''demo'' ''/v'' ''/out/demo.mp4'' [''a.mp4'', ''b.mp4''] True (Some (\<lambda>p. None))
 \<and> callback_calls (new_events demo_world (process_videos garbled_run demo_thread demo_world)) = []"
proof -
  have n: "new_events demo_world (process_videos garbled_run demo_thread demo_world)
     = events (process_videos garbled_run demo_thread demo_world)"
    by (rule new_events_append) (simp add: demo_world_def)
  show ?thesis
    unfolding n garbled_events
    by (simp add: exit_zero_def callback_calls_def demo_thread_def)
qed

text \<open>
  C4. After \<^verbatim>\<open>subprocess.run\<close> has returned with return code zero (the success path),
  with the cleanup flag set and an output path that
  does not begin with \<^verbatim>\<open>_comp_\<close>, the worker calls \<^verbatim>\<open>os.remove\<close> on every file of the
  snapshot, in order; every call is followed by its log line, an error line when the
  call raised, and the loop goes on to the next file; the list file is removed and the
  callback is called as in a run without failures; afterwards no file of the snapshot
  that could be deleted is left. When no run returned with zero the worker makes no
  \<^verbatim>\<open>os.remove\<close> call at all.
\<close>

theorem cleanup_deletes_every_source:
  fixes w :: world
  assumes "w' = process_videos run (Thread compilation_name folder_path output_path
                  video_files cleanup_source callback) w"
  shows "(run_returned_zero (new_events w w') \<and> cleanup_source \<and> \<not> startswith output_path ''_comp_'' \<longrightarrow>
            (\<exists>cmd err rs ok.
               length rs = length video_files \<and>
               new_events w w' =
                 [Write (list_file_path folder_path compilation_name)
                    (list_file_text folder_path video_files),
                  Ran cmd (Exited 0 err),
                  Log LOG_INFO (''Successfully stitched videos into '' @ output_path)]
                 @ concat (map (\<lambda>(v, r). deletion_events folder_path v r) (zip video_files rs))
                 @ [Remove (list_file_path folder_path compilation_name) ok]
                 @ callback_events callback output_path)
          \<and> remove_calls (new_events w w') =
               map (os_path_join folder_path) video_files
               @ [list_file_path folder_path compilation_name]
          \<and> callback_calls (new_events w w') = (case callback of None \<Rightarrow> [] | Some cb \<Rightarrow> [output_path])
          \<and> (\<forall>v\<in>set video_files. \<not> still_there w' (os_path_join folder_path v)))
       \<and> (\<not> run_returned_zero (new_events w w') \<longrightarrow> remove_calls (new_events w w') = [])"
proof -
  let ?lp = "list_file_path folder_path compilation_name"
  obtain es where es: "events w' = events w @ es"
     "worker_events compilation_name folder_path output_path video_files cleanup_source callback es"
    unfolding assms using process_videos_events by blast
  have ne: "new_events w w' = es" using es(1) by (rule new_events_append)
  have fail: "\<not> run_returned_zero es \<longrightarrow> remove_calls es = []"
    using es(2) unfolding worker_events_def Let_def
    by (auto simp: remove_calls_failure run_returned_zero_success)
  have ok: "\<exists>cmd err rs ok.
               length rs = length video_files \<and>
               es = [Write ?lp (list_file_text folder_path video_files),
                  Ran cmd (Exited 0 err),
                  Log LOG_INFO (''Successfully stitched videos into '' @ output_path)]
                 @ concat (map (\<lambda>(v, r). deletion_events folder_path v r) (zip video_files rs))
                 @ [Remove ?lp ok]
                 @ callback_events callback output_path"
    and rm: "remove_calls es = map (os_path_join folder_path) video_files @ [?lp]"
    and cb: "callback_calls es = (case callback of None \<Rightarrow> [] | Some cb \<Rightarrow> [output_path])"
    if h: "run_returned_zero es" "cleanup_source" "\<not> startswith output_path ''_comp_''"
  proof -
    from es(2) h(1) obtain cmd err es' where
      a: "es = [Write ?lp (list_file_text folder_path video_files), Ran cmd (Exited 0 err)] @ es'"
      and b: "success_events ?lp folder_path output_path video_files cleanup_source callback es'"
      unfolding worker_events_def Let_def using run_returned_zero_failure by blast
    from b h(2,3) obtain rs ok where rs: "length rs = length video_files"
      "es' = [Log LOG_INFO (''Successfully stitched videos into '' @ output_path)]
             @ concat (map (\<lambda>(v, r). deletion_events folder_path v r) (zip video_files rs))
             @ [Remove ?lp ok] @ callback_events callback output_path"
      unfolding success_events_def by auto
    show "\<exists>cmd err rs ok.
               length rs = length video_files \<and>
               es = [Write ?lp (list_file_text folder_path video_files),
                  Ran cmd (Exited 0 err),
                  Log LOG_INFO (''Successfully stitched videos into '' @ output_path)]
                 @ concat (map (\<lambda>(v, r). deletion_events folder_path v r) (zip video_files rs))
                 @ [Remove ?lp ok]
                 @ callback_events callback output_path"
      using a rs by auto
    show "remove_calls es = map (os_path_join folder_path) video_files @ [?lp]"
      using remove_calls_success [OF b] h(2,3) by (simp add: a remove_calls_simps)
    show "callback_calls es = (case callback of None \<Rightarrow> [] | Some cb \<Rightarrow> [output_path])"
      using callback_calls_success [OF b] by (simp add: a callback_calls_simps)
  qed
  have gone: "\<forall>v\<in>set video_files. \<not> still_there w' (os_path_join folder_path v)"
    if h: "run_returned_zero es" "cleanup_source" "\<not> startswith output_path ''_comp_''"
  proof -
    from h(1) ne have "run_returned_zero (new_events w (process_videos run (Thread compilation_name
            folder_path output_path video_files cleanup_source callback) w))"
      unfolding assms by simp
    from process_videos_success [OF this] obtain w2 where
      "w' = unregister_stitch compilation_name
               (after_success ?lp folder_path output_path video_files cleanup_source callback w2)"
      unfolding assms by blast
    then show ?thesis
      using after_success_gone [OF h(2,3)] by simp
  qed
  show ?thesis
    unfolding ne using fail ok rm cb gone by blast
qed

theorem cleanup_deletes_every_source_witness:
  "run_returned_zero (new_events locked_world (process_videos demo_run demo_thread locked_world))
 \<and> \<not> startswith ''/out/demo.mp4'' ''_comp_''
 \<and> remove_calls (new_events locked_world (process_videos demo_run demo_thread locked_world))
      = [''/v/a.mp4'', ''/v/b.mp4'', ''/v/file_list_demo.txt'']
 \<and> callback_calls (new_events locked_world (process_videos demo_run demo_thread locked_world))
      = [''/out/demo.mp4'']
 \<and> \<not> still_there (process_videos demo_run demo_thread locked_world) ''/v/a.mp4''
 \<and> \<not> still_there (process_videos demo_run demo_thread locked_world) ''/v/b.mp4''"
proof -
  have z: "run_returned_zero (new_events locked_world (process_videos demo_run demo_thread locked_world))"
    unfolding locked_new_events locked_events by (simp add: run_returned_zero_def)
  have p: "\<not> startswith ''/out/demo.mp4'' ''_comp_''"
    by (simp add: startswith_def)
  have j: "map (os_path_join ''/v'') [''a.mp4'', ''b.mp4''] @ [list_file_path ''/v'' ''demo'']
           = [''/v/a.mp4'', ''/v/b.mp4'', ''/v/file_list_demo.txt'']"
    by (simp add: os_path_join_def list_file_path_def startswith_def endswith_def suffix_to_prefix)
  from cleanup_deletes_every_source [of "process_videos demo_run demo_thread locked_world"
         demo_run "''demo''" "''/v''" "''/out/demo.mp4''" "[''a.mp4'', ''b.mp4'']" True
         "Some (\<lambda>p. None)" locked_world] z p
  show ?thesis
    by (simp add: demo_thread_def j [simplified])
qed

text \<open>
  C5. The worker writes one file, the list file, at
  \<^verbatim>\<open>os.path.join(folder_path, "file_list_" + compilation_name + ".txt")\<close>, one line for
  each entry of the snapshot in order, and runs FFmpeg only when the block that writes it
  was left normally. Then the file holds, for every entry in order, the line
  \<^verbatim>\<open>file '<os.path.join(folder_path, entry)>'\<close> ended by a newline: one line per entry
  when no path holds a newline character. When the block is left by an exception the
  worker logs it and ends. For an entry that does not begin with a separator the path in
  a line is absolute exactly when the folder path is absolute; the code does not make it
  absolute. For a compilation name without a separator the file name of the list file is
  \<^verbatim>\<open>file_list_<name>.txt\<close>, so two such names give list files with different file
  names, whatever the folders.
\<close>

theorem list_file_lines:
  fixes w :: world
  assumes "w' = process_videos run (Thread compilation_name folder_path output_path
                  video_files cleanup_source callback) w"
  shows "((write_calls (new_events w w') = [] \<and> tool_runs (new_events w w') = [])
          \<or> write_calls (new_events w w') =
               [(list_file_path folder_path compilation_name,
                 list_file_text folder_path video_files)])
       \<and> (fst (write_list_file (list_file_path folder_path compilation_name)
                  folder_path video_files w) = None \<longrightarrow>
            files (snd (write_list_file (list_file_path folder_path compilation_name)
                          folder_path video_files w))
                  (list_file_path folder_path compilation_name)
              = Some (File (stamp w) (list_file_text folder_path video_files))
          \<and> write_calls (new_events w w') =
               [(list_file_path folder_path compilation_name,
                 list_file_text folder_path video_files)])
       \<and> (fst (write_list_file (list_file_path folder_path compilation_name)
                  folder_path video_files w) = Some e \<longrightarrow>
            new_events w w' = [Log LOG_ERROR (''Error during video stitching: '' @ e)])
       \<and> list_file_text folder_path video_files =
           concat (map (\<lambda>v. ''file '' @ quoted (os_path_join folder_path v) @ [CHR 0x0A])
                     video_files)
       \<and> ((\<forall>v\<in>set video_files. CHR 0x0A \<notin> set (os_path_join folder_path v)) \<longrightarrow>
            text_lines (list_file_text folder_path video_files) =
              map (\<lambda>v. ''file '' @ quoted (os_path_join folder_path v)) video_files)
       \<and> (\<forall>v\<in>set video_files. \<not> os_path_isabs v \<longrightarrow>
            os_path_isabs (os_path_join folder_path v) = os_path_isabs folder_path)
       \<and> (CHR ''/'' \<notin> set compilation_name \<longrightarrow>
            os_path_basename (list_file_path folder_path compilation_name)
              = ''file_list_'' @ compilation_name @ ''.txt'')
       \<and> (CHR ''/'' \<notin> set compilation_name \<and> CHR ''/'' \<notin> set other_name \<and>
           other_name \<noteq> compilation_name \<longrightarrow>
            os_path_basename (list_file_path other_folder other_name)
              \<noteq> os_path_basename (list_file_path folder_path compilation_name))"
proof -
  let ?lp = "list_file_path folder_path compilation_name"
  obtain es where es: "events w' = events w @ es"
     "worker_events compilation_name folder_path output_path video_files cleanup_source callback es"
    unfolding assms using process_videos_events by blast
  have ne: "new_events w w' = es" using es(1) by (rule new_events_append)
  have 1: "(write_calls es = [] \<and> tool_runs es = [])
          \<or> write_calls es = [(?lp, list_file_text folder_path video_files)]"
    using es(2) by (rule write_calls_worker)
  have 2: "files (snd (write_list_file ?lp folder_path video_files w)) ?lp
              = Some (File (stamp w) (list_file_text folder_path video_files))"
    if "fst (write_list_file ?lp folder_path video_files w) = None"
    using write_list_file_None(5) [of ?lp folder_path video_files w
            "snd (write_list_file ?lp folder_path video_files w)"] that
    by (metis prod.collapse)
  have 3: "write_calls es = [(?lp, list_file_text folder_path video_files)]"
    if "fst (write_list_file ?lp folder_path video_files w) = None"
    using process_videos_write(2) [OF that, of run output_path cleanup_source callback] ne
    unfolding assms by simp
  have 4: "es = [Log LOG_ERROR (''Error during video stitching: '' @ e)]"
    if "fst (write_list_file ?lp folder_path video_files w) = Some e"
    using process_videos_write(1) [OF that, of run output_path cleanup_source callback] ne
    unfolding assms by simp
  have 5: "list_file_text folder_path video_files =
           concat (map (\<lambda>v. ''file '' @ quoted (os_path_join folder_path v) @ [CHR 0x0A])
                     video_files)"
    by (simp add: list_file_text_def list_line_def)
  have 8: "os_path_basename (list_file_path other_folder other_name)
              \<noteq> os_path_basename ?lp"
    if "CHR ''/'' \<notin> set compilation_name" "CHR ''/'' \<notin> set other_name"
       "other_name \<noteq> compilation_name"
    using that by (simp add: os_path_basename_list_file)
  show ?thesis
    unfolding ne
    using 1 2 3 4 5 8 text_lines_list_file_text os_path_isabs_join_entry
      os_path_basename_list_file
    by blast
qed

theorem list_file_lines_witness:
  "write_calls (new_events demo_world (process_videos demo_run demo_thread demo_world))
     = [(list_file_path ''/v'' ''demo'', list_file_text ''/v'' [''a.mp4'', ''b.mp4''])]
 \<and> text_lines (list_file_text ''/v'' [''a.mp4'', ''b.mp4''])
     = [''file '' @ quoted ''/v/a.mp4'', ''file '' @ quoted ''/v/b.mp4'']
 \<and> os_path_isabs (os_path_join ''/v'' ''a.mp4'')
 \<and> os_path_basename (list_file_path ''/v'' ''demo'') = ''file_list_demo.txt''
 \<and> os_path_basename (list_file_path ''/w'' ''other'')
     \<noteq> os_path_basename (list_file_path ''/v'' ''demo'')"
proof -
  let ?th = "Thread ''demo'' ''/v'' ''/out/demo.mp4'' [''a.mp4'', ''b.mp4''] True (Some (\<lambda>p. None))"
  let ?w' = "process_videos demo_run ?th demo_world"
  have j: "os_path_join ''/v'' ''a.mp4'' = ''/v/a.mp4''" "os_path_join ''/v'' ''b.mp4'' = ''/v/b.mp4''"
    by (simp_all add: os_path_join_def startswith_def endswith_def suffix_to_prefix)
  have nl: "\<forall>v\<in>set [''a.mp4'', ''b.mp4'']. CHR 0x0A \<notin> set (os_path_join ''/v'' v)"
    by (simp add: j)
  have ab: "os_path_isabs ''/v''" "\<not> os_path_isabs ''a.mp4''"
    by (simp_all add: os_path_isabs_def startswith_def)
  have m: "''a.mp4'' \<in> set [''a.mp4'', ''b.mp4'']" by simp
  have d: "CHR ''/'' \<notin> set ''demo''" "CHR ''/'' \<notin> set ''other''" "''other'' \<noteq> ''demo''"
    by simp_all
  have z: "tool_runs (new_events demo_world ?w') \<noteq> []"
    using demo_run_returned_zero [unfolded demo_thread_def]
    by (auto simp: run_returned_zero_def tool_runs_def list_ex_iff split: event.splits)
  note t = list_file_lines [of ?w' demo_run "''demo''" "''/v''" "''/out/demo.mp4''"
             "[''a.mp4'', ''b.mp4'']" True "Some (\<lambda>p. None)" demo_world _ "''other''" "''/w''",
             OF refl]
  from t z have 1: "write_calls (new_events demo_world ?w')
     = [(list_file_path ''/v'' ''demo'', list_file_text ''/v'' [''a.mp4'', ''b.mp4''])]"
    by blast
  from t nl have 2: "text_lines (list_file_text ''/v'' [''a.mp4'', ''b.mp4''])
     = map (\<lambda>v. ''file '' @ quoted (os_path_join ''/v'' v)) [''a.mp4'', ''b.mp4'']"
    by blast
  from t ab m have 3: "os_path_isabs (os_path_join ''/v'' ''a.mp4'')" by blast
  from t d have 4: "os_path_basename (list_file_path ''/v'' ''demo'') = ''file_list_'' @ ''demo'' @ ''.txt''"
    by blast
  from t d have 5: "os_path_basename (list_file_path ''/w'' ''other'')
     \<noteq> os_path_basename (list_file_path ''/v'' ''demo'')" by blast
  show ?thesis using 1 2 3 4 5 by (simp add: demo_thread_def j)
qed

text \<open>
  Claim C5 as stated fails on a relative folder path, where the lines name relative
  paths; for two jobs on different folders whose names hold a separator, where the two
  list files are the same file; and when the line of the second of two entries cannot be
  encoded, where the list file is left with one line.
\<close>

theorem list_file_relative_counterexample:
  "fst (snd (stitch_videos_async ''demo'' ''clips'' ''out.mp4''
               (None :: (string \<Rightarrow> real result) option) False None rel_world)) = Some rel_thread
 \<and> write_calls (new_events rel_world (process_videos demo_run rel_thread rel_world))
      = [(''clips/file_list_demo.txt'', ''file '' @ quoted ''clips/a.mp4'' @ [CHR 0x0A])]
 \<and> \<not> os_path_isabs ''clips/a.mp4''
 \<and> ''x/file_list_y'' \<noteq> ''y''
 \<and> list_file_path ''a'' ''x/file_list_y'' = list_file_path ''a/file_list_x'' ''y''
 \<and> demo_thread = Thread ''demo'' ''/v'' ''/out/demo.mp4'' [''a.mp4'', ''b.mp4''] True (Some (\<lambda>p. None))
 \<and> files (process_videos demo_run demo_thread odd_name_world) ''/v/file_list_demo.txt''
      = Some (File (whole_seconds 10) (''file '' @ quoted ''/v/a.mp4'' @ [CHR 0x0A]))"
proof -
  have n: "new_events rel_world (process_videos demo_run rel_thread rel_world)
     = events (process_videos demo_run rel_thread rel_world)"
    by (rule new_events_append) (simp add: rel_world_def)
  have "write_calls (new_events rel_world (process_videos demo_run rel_thread rel_world))
      = [(''clips/file_list_demo.txt'', ''file '' @ quoted ''clips/a.mp4'' @ [CHR 0x0A])]"
    unfolding n rel_events by (simp add: write_calls_def)
  moreover have "\<not> os_path_isabs ''clips/a.mp4''"
    by (simp add: os_path_isabs_def startswith_def)
  moreover have "list_file_path ''a'' ''x/file_list_y'' = list_file_path ''a/file_list_x'' ''y''"
    by (simp add: list_file_path_def os_path_join_def startswith_def endswith_def suffix_to_prefix)
  ultimately show ?thesis using rel_submit odd_name_file
    by (simp add: demo_thread_def list_line_def)
qed




text \<open>
  C7. The checks run in the order: name already registered, folder missing or not a
  directory, empty snapshot, registration. Each failing check returns \<^verbatim>\<open>None\<close>, logs
  its own warning (the registration logs nothing) and leaves the registry as it was,
  and no thread is started. The function returns the output path exactly when all
  checks pass, the registration succeeds and the ordering step returns; then the name
  is registered.
\<close>

theorem submission_validation_order:
  "(is_stitching w n \<longrightarrow>
      stitch_videos_async n f p sl c cb w =
        (Return None, None,
         script_log LOG_WARNING
           (''Already stitching compilation '' @ quoted n @ ''. Skipping request.'') w))
 \<and> (\<not> is_stitching w n \<and> (\<not> os_path_exists w f \<or> \<not> os_path_isdir w f) \<longrightarrow>
      stitch_videos_async n f p sl c cb w =
        (Return None, None, script_log LOG_WARNING (''Invalid folder path: '' @ f) w))
 \<and> (\<not> is_stitching w n \<and> os_path_exists w f \<and> os_path_isdir w f \<and>
     list_videos w f = Return [] \<longrightarrow>
      stitch_videos_async n f p sl c cb w =
        (Return None, None, script_log LOG_WARNING ''No video files found to stitch.'' w))
 \<and> (is_stitching w n \<longrightarrow> register_and_start n f p sl c cb vs w = (Return None, None, w))
 \<and> (fst (stitch_videos_async n f p sl c cb w) = Return None \<longrightarrow>
      active_stitches (snd (snd (stitch_videos_async n f p sl c cb w))) = active_stitches w \<and>
      fst (snd (stitch_videos_async n f p sl c cb w)) = None)
 \<and> ((fst (stitch_videos_async n f p sl c cb w) = Return (Some q)) =
      (q = p \<and> \<not> is_stitching w n \<and> os_path_exists w f \<and> os_path_isdir w f \<and>
       (\<exists>snapshot ordered.
          list_videos w f = Return snapshot \<and> snapshot \<noteq> [] \<and>
          fst (register_stitch n f p w) \<and>
          apply_sorting w f sl snapshot = Return ordered)))
 \<and> (fst (stitch_videos_async n f p sl c cb w) = Return (Some q) \<longrightarrow>
      is_stitching (snd (snd (stitch_videos_async n f p sl c cb w))) n)"
proof (intro conjI impI)
  assume "is_stitching w n"
  then show "stitch_videos_async n f p sl c cb w =
        (Return None, None,
         script_log LOG_WARNING
           (''Already stitching compilation '' @ quoted n @ ''. Skipping request.'') w)"
    by (simp add: stitch_videos_async_def)
next
  assume "\<not> is_stitching w n \<and> (\<not> os_path_exists w f \<or> \<not> os_path_isdir w f)"
  then show "stitch_videos_async n f p sl c cb w =
        (Return None, None, script_log LOG_WARNING (''Invalid folder path: '' @ f) w)"
    by (auto simp add: stitch_videos_async_def)
next
  assume "\<not> is_stitching w n \<and> os_path_exists w f \<and> os_path_isdir w f \<and>
     list_videos w f = Return []"
  then show "stitch_videos_async n f p sl c cb w =
        (Return None, None, script_log LOG_WARNING ''No video files found to stitch.'' w)"
    by (simp add: stitch_videos_async_def)
next
  assume "is_stitching w n"
  then show "register_and_start n f p sl c cb vs w = (Return None, None, w)"
    by (rule register_and_start_lost)
next
  assume a: "fst (stitch_videos_async n f p sl c cb w) = Return None"
  show "active_stitches (snd (snd (stitch_videos_async n f p sl c cb w))) = active_stitches w"
    using a by (rule stitch_videos_async_rejects)
  show "fst (snd (stitch_videos_async n f p sl c cb w)) = None"
    using a by (rule stitch_videos_async_rejects)
next
  have "\<not> is_stitching w n \<Longrightarrow> fst (register_stitch n f p w)"
    by (simp add: register_stitch_def is_stitching_def)
  then show "(fst (stitch_videos_async n f p sl c cb w) = Return (Some q)) =
      (q = p \<and> \<not> is_stitching w n \<and> os_path_exists w f \<and> os_path_isdir w f \<and>
       (\<exists>snapshot ordered.
          list_videos w f = Return snapshot \<and> snapshot \<noteq> [] \<and>
          fst (register_stitch n f p w) \<and>
          apply_sorting w f sl snapshot = Return ordered))"
    unfolding stitch_videos_async_accepts by blast
next
  assume "fst (stitch_videos_async n f p sl c cb w) = Return (Some q)"
  then obtain vs ordered where h: "\<not> is_stitching w n" "os_path_exists w f" "os_path_isdir w f"
     "list_videos w f = Return vs" "vs \<noteq> []" "apply_sorting w f sl vs = Return ordered"
    unfolding stitch_videos_async_accepts by blast
  show "is_stitching (snd (snd (stitch_videos_async n f p sl c cb w))) n"
    unfolding stitch_videos_async_checked [OF h(1-5)] h(6)
    by (simp add: log_order_fields is_stitching_def register_stitch_def)
qed

theorem submission_validation_order_witness:
  "fst (stitch_videos_async ''demo'' ''/v'' ''/out/demo.mp4''
          (None :: (string \<Rightarrow> real result) option) True None demo_world)
     = Return (Some ''/out/demo.mp4'')
 \<and> is_stitching (snd (snd (stitch_videos_async ''demo'' ''/v'' ''/out/demo.mp4''
          (None :: (string \<Rightarrow> real result) option) True None demo_world))) ''demo''
 \<and> stitch_videos_async ''demo'' ''/nowhere'' ''/out/demo.mp4''
          (None :: (string \<Rightarrow> real result) option) True None demo_world
     = (Return None, None, script_log LOG_WARNING ''Invalid folder path: /nowhere'' demo_world)"
proof -
  have a: "\<not> is_stitching demo_world ''demo''" "os_path_exists demo_world ''/v''"
    "os_path_isdir demo_world ''/v''" "\<not> os_path_exists demo_world ''/nowhere''"
    "fst (register_stitch ''demo'' ''/v'' ''/out/demo.mp4'' demo_world)"
    by (simp_all add: demo_world_def is_stitching_def os_path_exists_def os_path_isdir_def
          register_stitch_def)
  have s: "apply_sorting demo_world ''/v'' (None :: (string \<Rightarrow> real result) option)
             [''b.mp4'', ''a.mp4''] = Return [''a.mp4'', ''b.mp4'']"
    by (simp add: demo_world_def submit_defs)
  have ne: "[''b.mp4'', ''a.mp4''] \<noteq> ([] :: string list)" by simp
  note t = submission_validation_order [of demo_world "''demo''" _ "''/out/demo.mp4''"
         "None :: (string \<Rightarrow> real result) option" True None "[]" "''/out/demo.mp4''"]
  from t [of "''/v''"] a demo_list_videos s ne
  have 1: "fst (stitch_videos_async ''demo'' ''/v'' ''/out/demo.mp4''
          (None :: (string \<Rightarrow> real result) option) True None demo_world)
     = Return (Some ''/out/demo.mp4'')" by blast
  with t [of "''/v''"]
  have 2: "is_stitching (snd (snd (stitch_videos_async ''demo'' ''/v'' ''/out/demo.mp4''
          (None :: (string \<Rightarrow> real result) option) True None demo_world))) ''demo''" by blast
  from t [of "''/nowhere''"] a
  have 3: "stitch_videos_async ''demo'' ''/nowhere'' ''/out/demo.mp4''
          (None :: (string \<Rightarrow> real result) option) True None demo_world
     = (Return None, None, script_log LOG_WARNING (''Invalid folder path: '' @ ''/nowhere'') demo_world)"
    by blast
  from 1 2 3 show ?thesis by simp
qed

text \<open>
  Claim C7 as stated fails when the ordering step raises: the folder lists an entry whose
  modification time cannot be read, all checks pass and the registration succeeds, and
  the function leaves by the exception instead of returning the output path.
\<close>

theorem submission_raises_counterexample:
  "\<not> is_stitching broken_world ''demo''
 \<and> os_path_exists broken_world ''/v'' \<and> os_path_isdir broken_world ''/v''
 \<and> list_videos broken_world ''/v'' = Return [''b.mp4'', ''gone.mp4'', ''a.mp4'']
 \<and> fst (register_stitch ''demo'' ''/v'' ''/out/demo.mp4'' broken_world)
 \<and> fst (stitch_videos_async ''demo'' ''/v'' ''/out/demo.mp4''
           (None :: (string \<Rightarrow> real result) option) True None broken_world)
      = Raise (''[Errno 2] No such file or directory: '' @ quoted ''/v/gone.mp4'')
 \<and> fst (stitch_videos_async ''demo'' ''/v'' ''/out/demo.mp4''
           (None :: (string \<Rightarrow> real result) option) True None broken_world)
      \<noteq> Return (Some ''/out/demo.mp4'')
 \<and> fst (snd (stitch_videos_async ''demo'' ''/v'' ''/out/demo.mp4''
           (None :: (string \<Rightarrow> real result) option) True None broken_world)) = None
 \<and> is_stitching (snd (snd (stitch_videos_async ''demo'' ''/v'' ''/out/demo.mp4''
           (None :: (string \<Rightarrow> real result) option) True None broken_world))) ''demo''"
  by (simp add: broken_world_def demo_world_def submit_defs)

text \<open>
  C8. The FFmpeg path of the configuration does not exist. The submission is accepted and
  the job registered; the worker writes the list file, logs the error, makes no
  \<^verbatim>\<open>os.remove\<close> call and no callback call, and unregisters the job. The \<^verbatim>\<open>return\<close> in
  that branch leaves the \<^verbatim>\<open>try\<close> before the removal of the list file, so the list file
  is still there after the worker has ended.
\<close>

theorem tool_not_found_leaves_list_file:
  "fst no_tool_submit = Return (Some ''/out/demo.mp4'')
 \<and> fst (snd no_tool_submit) = Some demo_thread
 \<and> is_stitching (snd (snd no_tool_submit)) ''demo''
 \<and> new_events (snd (snd no_tool_submit))
      (process_videos demo_run demo_thread (snd (snd no_tool_submit)))
    = [Write ''/v/file_list_demo.txt''
         (''file '' @ quoted ''/v/a.mp4'' @ [CHR 0x0A] @ ''file '' @ quoted ''/v/b.mp4'' @ [CHR 0x0A]),
       Log LOG_ERROR ''FFmpeg path not found: /opt/ffmpeg. Please check your config.'']
 \<and> \<not> is_stitching (process_videos demo_run demo_thread (snd (snd no_tool_submit))) ''demo''
 \<and> files (process_videos demo_run demo_thread (snd (snd no_tool_submit))) ''/v/file_list_demo.txt''
    = Some (File (whole_seconds 10)
         (''file '' @ quoted ''/v/a.mp4'' @ [CHR 0x0A] @ ''file '' @ quoted ''/v/b.mp4'' @ [CHR 0x0A]))"
  by (simp add: no_tool_submit_def no_tool_world_def demo_world_def demo_thread_def submit_defs
        eval_defs)

text \<open>
  C9. Whatever the key function, when the ordering step returns, its result is a
  permutation of the snapshot; so the files handed to the thread of an accepted
  submission are, as a multiset, the files of the snapshot.
\<close>

theorem ordering_is_permutation:
  "(apply_sorting w folder_path sort_lambda video_files = Return ordered \<longrightarrow>
      mset ordered = mset video_files)
 \<and> (stitch_videos_async compilation_name folder_path output_path sort_lambda
       cleanup_source callback w = (r, Some (Thread n f p handed c cb), w') \<longrightarrow>
      (\<exists>snapshot. list_videos w folder_path = Return snapshot \<and> mset handed = mset snapshot))"
proof (intro conjI impI)
  assume "apply_sorting w folder_path sort_lambda video_files = Return ordered"
  then show "mset ordered = mset video_files" by (rule apply_sorting_mset)
next
  assume "stitch_videos_async compilation_name folder_path output_path sort_lambda
       cleanup_source callback w = (r, Some (Thread n f p handed c cb), w')"
  from stitch_videos_async_thread [OF this]
  show "\<exists>snapshot. list_videos w folder_path = Return snapshot \<and> mset handed = mset snapshot"
    by (auto dest: apply_sorting_mset)
qed

theorem ordering_is_permutation_witness:
  "\<exists>snapshot. list_videos demo_world ''/v'' = Return snapshot \<and>
      mset [''b.mp4'', ''a.mp4''] = mset snapshot"
proof -
  let ?x = "stitch_videos_async ''demo'' ''/v'' ''/out/demo.mp4'' (Some newest_first_key)
               True None demo_world"
  have "?x = (fst ?x, Some (Thread ''demo'' ''/v'' ''/out/demo.mp4'' [''b.mp4'', ''a.mp4''] True None),
              snd (snd ?x))"
    using demo_submit_key by (metis prod.collapse)
  with ordering_is_permutation [of demo_world "''/v''" "Some newest_first_key" "[]" "[]"
         "''demo''" "''/out/demo.mp4''" True None "fst ?x" "''demo''" "''/v''" "''/out/demo.mp4''"
         "[''b.mp4'', ''a.mp4'']" True None "snd (snd ?x)"]
  show ?thesis by blast
qed

text \<open>
  C10. After \<^verbatim>\<open>subprocess.run\<close> has returned with return code zero, the sources are
  removed exactly when the cleanup
  flag is set and the whole output path does not begin with \<^verbatim>\<open>_comp_\<close>. An absolute
  output path begins with the separator, so it is never protected.
\<close>

theorem protected_output_is_comp_prefix:
  fixes w :: world
  assumes "w' = process_videos run (Thread compilation_name folder_path output_path
                  video_files cleanup_source callback) w"
  shows "(run_returned_zero (new_events w w') \<longrightarrow>
            remove_calls (new_events w w') =
              (if cleanup_source \<and> \<not> startswith output_path ''_comp_''
               then map (os_path_join folder_path) video_files else [])
              @ [list_file_path folder_path compilation_name])
       \<and> (os_path_isabs output_path \<longrightarrow> \<not> startswith output_path ''_comp_'')
       \<and> (run_returned_zero (new_events w w') \<and> cleanup_source \<and> os_path_isabs output_path \<longrightarrow>
            remove_calls (new_events w w') =
              map (os_path_join folder_path) video_files
              @ [list_file_path folder_path compilation_name]
          \<and> (\<forall>v\<in>set video_files. \<not> still_there w' (os_path_join folder_path v)))"
proof -
  let ?lp = "list_file_path folder_path compilation_name"
  obtain es where es: "events w' = events w @ es"
     "worker_events compilation_name folder_path output_path video_files cleanup_source callback es"
    unfolding assms using process_videos_events by blast
  have ne: "new_events w w' = es" using es(1) by (rule new_events_append)
  have rm: "remove_calls es =
              (if cleanup_source \<and> \<not> startswith output_path ''_comp_''
               then map (os_path_join folder_path) video_files else []) @ [?lp]"
    if "run_returned_zero es"
  proof -
    from es(2) that obtain cmd err es' where
      a: "es = [Write ?lp (list_file_text folder_path video_files), Ran cmd (Exited 0 err)] @ es'"
      and b: "success_events ?lp folder_path output_path video_files cleanup_source callback es'"
      unfolding worker_events_def Let_def using run_returned_zero_failure by blast
    show ?thesis
      using remove_calls_success [OF b] by (simp add: a remove_calls_simps)
  qed
  have ab: "\<not> startswith output_path ''_comp_''" if "os_path_isabs output_path"
    using that by (cases output_path) (auto simp: os_path_isabs_def startswith_def)
  have gone: "\<forall>v\<in>set video_files. \<not> still_there w' (os_path_join folder_path v)"
    if h: "run_returned_zero es" "cleanup_source" "os_path_isabs output_path"
  proof -
    from h(1) ne have "run_returned_zero (new_events w (process_videos run (Thread compilation_name
            folder_path output_path video_files cleanup_source callback) w))"
      unfolding assms by simp
    from process_videos_success [OF this] obtain w2 where
      "w' = unregister_stitch compilation_name
               (after_success ?lp folder_path output_path video_files cleanup_source callback w2)"
      unfolding assms by blast
    then show ?thesis
      using after_success_gone [OF h(2) ab [OF h(3)]] by simp
  qed
  show ?thesis
    unfolding ne using rm ab gone by auto
qed

theorem protected_output_is_comp_prefix_witness:
  "run_returned_zero (new_events demo_world (process_videos demo_run comp_thread demo_world))
 \<and> os_path_isabs ''/v/_comp_demo.mp4''
 \<and> remove_calls (new_events demo_world (process_videos demo_run comp_thread demo_world))
      = [''/v/a.mp4'', ''/v/b.mp4'', ''/v/file_list_demo.txt'']
 \<and> \<not> still_there (process_videos demo_run comp_thread demo_world) ''/v/a.mp4''
 \<and> \<not> still_there (process_videos demo_run comp_thread demo_world) ''/v/b.mp4''"
proof -
  have n: "new_events demo_world (process_videos demo_run comp_thread demo_world)
     = events (process_videos demo_run comp_thread demo_world)"
    by (rule new_events_append) (simp add: demo_world_def)
  have z: "run_returned_zero (new_events demo_world (process_videos demo_run comp_thread demo_world))"
    unfolding n comp_events by (simp add: run_returned_zero_def)
  have p: "os_path_isabs ''/v/_comp_demo.mp4''"
    by (simp add: os_path_isabs_def startswith_def)
  have j: "map (os_path_join ''/v'') [''a.mp4'', ''b.mp4''] @ [list_file_path ''/v'' ''demo'']
           = [''/v/a.mp4'', ''/v/b.mp4'', ''/v/file_list_demo.txt'']"
    by (simp add: os_path_join_def list_file_path_def startswith_def endswith_def suffix_to_prefix)
  from protected_output_is_comp_prefix [of "process_videos demo_run comp_thread demo_world"
         demo_run "''demo''" "''/v''" "''/v/_comp_demo.mp4''" "[''a.mp4'', ''b.mp4'']" True
         None demo_world] z p
  show ?thesis
    by (simp add: comp_thread_def j [simplified])
qed

end
